theory Spec2Isabelle
  imports Complex_Main "HOL-Library.Sublist"
begin

section \<open>Data model (agents/models.py)\<close>

datatype SearchProvider = TAVILY | SERP

text \<open>
  \<^verbatim>\<open>SearchResult = Union[TavilySearchResult, SerpSearchResult]\<close>: one constructor per
  pydantic model, the fields in declaration order. The Python tests on
  \<^verbatim>\<open>isinstance(result, TavilySearchResult)\<close> are the discriminators of the datatype.
\<close>

datatype SearchResult =
    TavilySearchResult
      (title: string) (url: string) (content: string) (score: real)
      (published_date: "string option") (raw_content: "string option")
      (provider: SearchProvider)
  | SerpSearchResult
      (title: string) (url: string) (snippet: string) (position: int)
      (displayed_link: "string option") (cached_page_link: "string option")
      (provider: SearchProvider)

type_synonym datetime = nat

record SearchResults =
  query :: string
  results :: "SearchResult list"
  total_results :: int
  search_time :: real
  providers_used :: "SearchProvider list"
  ai_summary :: "string option"
  timestamp :: datetime

text \<open>
  The exception classes. \<^verbatim>\<open>TavilyAPIError\<close> and \<^verbatim>\<open>SerpAPIError\<close> derive from
  \<^verbatim>\<open>SearchError\<close>; \<^verbatim>\<open>GmailAPIError\<close> derives from \<^verbatim>\<open>Exception\<close> only.
  \<open>TimeoutException\<close> and \<open>RequestError\<close> are the two classes of httpx the
  clients catch by name. \<open>PyError\<close> stands for every other subclass of
  \<^verbatim>\<open>Exception\<close> and carries \<^verbatim>\<open>str(e)\<close>. Exceptions outside
  \<^verbatim>\<open>Exception\<close> (task cancellation, keyboard interrupt) are not part of the model.
\<close>

datatype exn =
    SearchError string "SearchProvider option" "int option"
  | TavilyAPIError string "int option"
  | SerpAPIError string "int option"
  | GmailAPIError string "int option"
  | TimeoutException string
  | RequestError string
  | PyError string

fun is_SearchError :: "exn \<Rightarrow> bool" where
  "is_SearchError (SearchError _ _ _) = True"
| "is_SearchError (TavilyAPIError _ _) = True"
| "is_SearchError (SerpAPIError _ _) = True"
| "is_SearchError (GmailAPIError _ _) = False"
| "is_SearchError (TimeoutException _) = False"
| "is_SearchError (RequestError _) = False"
| "is_SearchError (PyError _) = False"

fun str_exn :: "exn \<Rightarrow> string" where
  "str_exn (SearchError m _ _) = m"
| "str_exn (TavilyAPIError m _) = m"
| "str_exn (SerpAPIError m _) = m"
| "str_exn (GmailAPIError m _) = m"
| "str_exn (TimeoutException m) = m"
| "str_exn (RequestError m) = m"
| "str_exn (PyError m) = m"

fun exn_provider :: "exn \<Rightarrow> SearchProvider option" where
  "exn_provider (SearchError _ p _) = p"
| "exn_provider (TavilyAPIError _ _) = Some TAVILY"
| "exn_provider (SerpAPIError _ _) = Some SERP"
| "exn_provider (GmailAPIError _ _) = None"
| "exn_provider (TimeoutException _) = None"
| "exn_provider (RequestError _) = None"
| "exn_provider (PyError _) = None"

section \<open>Python string helpers\<close>

abbreviation nl :: string where "nl \<equiv> [CHR 0x0A]"
abbreviation dq :: string where "dq \<equiv> [CHR 0x22]"

text \<open>\<^verbatim>\<open>sep.join(xs)\<close>.\<close>

fun join :: "string \<Rightarrow> string list \<Rightarrow> string" where
  "join sep [] = []"
| "join sep [x] = x"
| "join sep (x # y # ys) = x @ sep @ join sep (y # ys)"

text \<open>\<^verbatim>\<open>sub in s\<close> on strings.\<close>

fun contains :: "string \<Rightarrow> string \<Rightarrow> bool" where
  "contains sub [] = (sub = [])"
| "contains sub (c # cs) = (prefix sub (c # cs) \<or> contains sub cs)"

text \<open>
  \<^verbatim>\<open>s.split(sep)\<close> for a separator that is not empty: \<open>split_from sep k cur s\<close>
  scans \<open>s\<close> with \<open>cur\<close> the piece read so far and \<open>k\<close> the characters of a
  matched separator still to skip.
\<close>

fun split_from :: "string \<Rightarrow> nat \<Rightarrow> string \<Rightarrow> string \<Rightarrow> string list" where
  "split_from sep k cur [] = [cur]"
| "split_from sep (Suc k) cur (c # cs) = split_from sep k cur cs"
| "split_from sep 0 cur (c # cs) =
     (if prefix sep (c # cs) then cur # split_from sep (length sep - 1) [] cs
      else split_from sep 0 (cur @ [c]) cs)"

definition split :: "string \<Rightarrow> string \<Rightarrow> string list" where
  "split sep s = split_from sep 0 [] s"

text \<open>\<^verbatim>\<open>str(n)\<close> on integers: the decimal digits, with a minus sign.\<close>

function str_nat :: "nat \<Rightarrow> string" where
  "str_nat n =
     (if n < 10 then [''0123456789'' ! n]
      else str_nat (n div 10) @ [''0123456789'' ! (n mod 10)])"
  by pat_completeness auto
termination
  by (relation "measure id") auto

declare str_nat.simps [simp del]

definition str_int :: "int \<Rightarrow> string" where
  "str_int i = (if i < 0 then ''-'' @ str_nat (nat (- i)) else str_nat (nat i))"

text \<open>Sequencing of steps that may raise.\<close>

definition bindE :: "exn + 'a \<Rightarrow> ('a \<Rightarrow> exn + 'b) \<Rightarrow> exn + 'b" where
  "bindE m f = (case m of Inl e \<Rightarrow> Inl e | Inr x \<Rightarrow> f x)"

section \<open>Decoded JSON and the library behaviour the clients rely on\<close>

text \<open>
  What \<^verbatim>\<open>response.json()\<close> returns. An object is the decoded dict, its keys distinct,
  in insertion order.
\<close>

datatype json =
    JNull | JBool bool | JInt int | JFloat real | JStr string
  | JArr "json list" | JObj "(string \<times> json) list"

text \<open>
  The behaviour of pydantic and of the Python runtime that the repository does not
  contain is a parameter of the model: how a value is validated against a field of
  type \<^verbatim>\<open>str\<close>, \<^verbatim>\<open>float\<close> or \<^verbatim>\<open>int\<close> (\<open>None\<close> when validation fails), what
  \<^verbatim>\<open>str(v)\<close> prints for a decoded value, the text of an exception the library
  raises (by class name and the values involved), and \<^verbatim>\<open>datetime.isoformat()\<close>.
\<close>

record libs =
  as_str :: "json \<Rightarrow> string option"
  as_float :: "json \<Rightarrow> real option"
  as_int :: "json \<Rightarrow> int option"
  str_of :: "json \<Rightarrow> string"
  errtext :: "string \<Rightarrow> json list \<Rightarrow> string"
  isoformat :: "datetime \<Rightarrow> string"

text \<open>A field of type \<^verbatim>\<open>Optional[str]\<close>.\<close>

definition as_opt_str :: "libs \<Rightarrow> json \<Rightarrow> string option option" where
  "as_opt_str L j = (case j of JNull \<Rightarrow> Some None | _ \<Rightarrow> map_option Some (as_str L j))"

text \<open>\<^verbatim>\<open>d.get(k, default)\<close>: only a dict has the method.\<close>

definition py_get :: "libs \<Rightarrow> json \<Rightarrow> string \<Rightarrow> json \<Rightarrow> exn + json" where
  "py_get L d k dflt =
     (case d of
        JObj kv \<Rightarrow> Inr (case map_of kv k of None \<Rightarrow> dflt | Some v \<Rightarrow> v)
      | _ \<Rightarrow> Inl (PyError (errtext L ''AttributeError'' [d])))"

text \<open>\<^verbatim>\<open>k in d\<close>: key of a dict, element of a list, substring of a string.\<close>

definition py_in :: "libs \<Rightarrow> string \<Rightarrow> json \<Rightarrow> exn + bool" where
  "py_in L k d =
     (case d of
        JObj kv \<Rightarrow> Inr (k \<in> set (map fst kv))
      | JArr xs \<Rightarrow> Inr (JStr k \<in> set xs)
      | JStr s \<Rightarrow> Inr (contains k s)
      | _ \<Rightarrow> Inl (PyError (errtext L ''TypeError'' [d])))"

text \<open>\<^verbatim>\<open>d[k]\<close> with a string key.\<close>

definition py_getitem :: "libs \<Rightarrow> json \<Rightarrow> string \<Rightarrow> exn + json" where
  "py_getitem L d k =
     (case d of
        JObj kv \<Rightarrow>
          (case map_of kv k of
             None \<Rightarrow> Inl (PyError (errtext L ''KeyError'' [JStr k]))
           | Some v \<Rightarrow> Inr v)
      | _ \<Rightarrow> Inl (PyError (errtext L ''TypeError'' [d])))"

text \<open>
  \<^verbatim>\<open>for x in v\<close>: a list gives its elements, a dict its keys, a string its
  characters; nothing else is iterable.
\<close>

definition py_iter :: "libs \<Rightarrow> json \<Rightarrow> exn + json list" where
  "py_iter L v =
     (case v of
        JArr xs \<Rightarrow> Inr xs
      | JObj kv \<Rightarrow> Inr (map (\<lambda>p. JStr (fst p)) kv)
      | JStr s \<Rightarrow> Inr (map (\<lambda>c. JStr [c]) s)
      | _ \<Rightarrow> Inl (PyError (errtext L ''TypeError'' [v])))"

section \<open>The network and the clock as the code sees them\<close>

text \<open>
  The readings of the clock one run of a function takes: \<^verbatim>\<open>time.time()\<close> at its
  start and at its end, and \<^verbatim>\<open>datetime.now()\<close> for a \<^verbatim>\<open>SearchResults\<close> built
  with the default timestamp.
\<close>

record clock =
  start_time :: real
  end_time :: real
  now :: datetime


text \<open>\<open>body_text\<close> is \<^verbatim>\<open>response.text\<close>.\<close>

record http_response =
  status_code :: int
  json_body :: "json option"
  body_text :: string

datatype http_outcome = Raised exn | Response http_response

text \<open>
  One request: the URL and the JSON payload (POST) or the query parameters (GET), and
  what comes back. \<open>json_body\<close> is \<open>None\<close> when \<^verbatim>\<open>response.json()\<close> raises.
\<close>

record net =
  post :: "string \<Rightarrow> json \<Rightarrow> http_outcome"
  get :: "string \<Rightarrow> json \<Rightarrow> http_outcome"

text \<open>Both client classes hold the same three attributes.\<close>

record tool =
  api_key :: string
  timeout :: int
  base_url :: string

text \<open>
  The message of the error raised on a status other than 200 (lines 91 to 101 of
  tools/tavily_search.py, 99 to 109 of tools/serp_search.py).
\<close>

definition status_error_msg :: "libs \<Rightarrow> string \<Rightarrow> http_response \<Rightarrow> string" where
  "status_error_msg L pre response =
     (let error_msg = pre @ str_int (status_code response);
          fallback = error_msg @ '': '' @ take 200 (body_text response)
      in case json_body response of
           None \<Rightarrow> fallback
         | Some error_data \<Rightarrow>
             (case py_in L ''error'' error_data of
                Inl _ \<Rightarrow> fallback
              | Inr False \<Rightarrow> error_msg
              | Inr True \<Rightarrow>
                  (case py_getitem L error_data ''error'' of
                     Inl _ \<Rightarrow> fallback
                   | Inr v \<Rightarrow> error_msg @ '': '' @ str_of L v)))"

section \<open>The AI-optimized client (tools/tavily_search.py)\<close>

definition TavilySearchTool_init :: "string \<Rightarrow> int \<Rightarrow> tool" where
  "TavilySearchTool_init key t = \<lparr>api_key = key, timeout = t, base_url = ''https://api.tavily.com''\<rparr>"

text \<open>
  The constructor of the pydantic model \<^verbatim>\<open>TavilySearchResult\<close>: every field is
  validated, and \<^verbatim>\<open>score\<close> is constrained by \<^verbatim>\<open>ge=0.0, le=1.0\<close>.
\<close>

definition TavilySearchResult_init ::
  "libs \<Rightarrow> json \<Rightarrow> json \<Rightarrow> json \<Rightarrow> json \<Rightarrow> json \<Rightarrow> json \<Rightarrow> SearchProvider \<Rightarrow> exn + SearchResult" where
  "TavilySearchResult_init L t u c s pd rc p =
     (case (as_str L t, as_str L u, as_str L c, as_float L s, as_opt_str L pd, as_opt_str L rc) of
        (Some t', Some u', Some c', Some s', Some pd', Some rc') \<Rightarrow>
          (if 0 \<le> s' \<and> s' \<le> 1 then Inr (TavilySearchResult t' u' c' s' pd' rc' p)
           else Inl (PyError (errtext L ''ValidationError'' [t, u, c, s, pd, rc])))
      | _ \<Rightarrow> Inl (PyError (errtext L ''ValidationError'' [t, u, c, s, pd, rc])))"

text \<open>The body of the conversion loop for one raw item (lines 109 to 117).\<close>

definition tavily_item :: "libs \<Rightarrow> json \<Rightarrow> exn + SearchResult" where
  "tavily_item L result =
     bindE (py_get L result ''title'' (JStr [])) (\<lambda>t.
     bindE (py_get L result ''url'' (JStr [])) (\<lambda>u.
     bindE (py_get L result ''content'' (JStr [])) (\<lambda>c.
     bindE (py_get L result ''score'' (JFloat 0)) (\<lambda>s.
     bindE (py_get L result ''published_date'' JNull) (\<lambda>pd.
     bindE (py_get L result ''raw_content'' JNull) (\<lambda>rc.
     TavilySearchResult_init L t u c s pd rc TAVILY))))))"

text \<open>
  \<^verbatim>\<open>results = []; for result in ...: results.append(...)\<close>: the first argument is the
  list \<^verbatim>\<open>results\<close> built so far; an item that raises ends the loop.
\<close>

fun convert_tavily :: "libs \<Rightarrow> SearchResult list \<Rightarrow> json list \<Rightarrow> exn + SearchResult list" where
  "convert_tavily L acc [] = Inr acc"
| "convert_tavily L acc (result # rest) =
     (case tavily_item L result of
        Inl e \<Rightarrow> Inl e
      | Inr tavily_result \<Rightarrow> convert_tavily L (acc @ [tavily_result]) rest)"

text \<open>The request payload (lines 69 to 78).\<close>

definition tavily_payload ::
  "tool \<Rightarrow> string \<Rightarrow> int \<Rightarrow> string \<Rightarrow> bool \<Rightarrow> string list option \<Rightarrow> string list option \<Rightarrow> json" where
  "tavily_payload self q max_results search_depth include_answer include_domains exclude_domains =
     JObj
       [(''api_key'', JStr (api_key self)),
        (''query'', JStr q),
        (''search_depth'', JStr search_depth),
        (''include_answer'', JBool include_answer),
        (''include_raw_content'', JBool True),
        (''max_results'', JInt (min max_results 50)),
        (''include_domains'',
           JArr (map JStr (case include_domains of None \<Rightarrow> [] | Some ds \<Rightarrow> ds))),
        (''exclude_domains'',
           JArr (map JStr (case exclude_domains of None \<Rightarrow> [] | Some ds \<Rightarrow> ds)))]"

text \<open>The body of the \<^verbatim>\<open>try\<close> of \<^verbatim>\<open>TavilySearchTool.search\<close>.\<close>

definition tavily_request ::
  "libs \<Rightarrow> net \<Rightarrow> clock \<Rightarrow> tool \<Rightarrow> string \<Rightarrow> int \<Rightarrow> string \<Rightarrow> bool \<Rightarrow>
   string list option \<Rightarrow> string list option \<Rightarrow> exn + SearchResults" where
  "tavily_request L nw clk self q max_results search_depth include_answer
       include_domains exclude_domains =
     (let payload = tavily_payload self q max_results search_depth include_answer
                      include_domains exclude_domains
      in case post nw (base_url self @ ''/search'') payload of
           Raised e \<Rightarrow> Inl e
         | Response response \<Rightarrow>
             (if status_code response \<noteq> 200 then
                Inl (TavilyAPIError (status_error_msg L ''Tavily API returned '' response)
                       (Some (status_code response)))
              else
                (case json_body response of
                   None \<Rightarrow> Inl (PyError (errtext L ''JSONDecodeError'' [JStr (body_text response)]))
                 | Some data \<Rightarrow>
                     bindE (py_get L data ''results'' (JArr [])) (\<lambda>raw.
                     bindE (py_iter L raw) (\<lambda>items.
                     bindE (convert_tavily L [] items) (\<lambda>results.
                     bindE (if include_answer then py_get L data ''answer'' JNull
                            else Inr JNull) (\<lambda>answer.
                     (case as_opt_str L answer of
                        None \<Rightarrow> Inl (PyError (errtext L ''ValidationError'' [answer]))
                      | Some summary \<Rightarrow>
                          Inr \<lparr>query = q, results = results,
                               total_results = int (length results),
                               search_time = end_time clk - start_time clk,
                               providers_used = [TAVILY],
                               ai_summary = summary,
                               timestamp = now clk\<rparr>))))))))"

text \<open>\<^verbatim>\<open>TavilySearchTool.search\<close>: the body under its three handlers.\<close>

definition TavilySearchTool_search ::
  "libs \<Rightarrow> net \<Rightarrow> clock \<Rightarrow> tool \<Rightarrow> string \<Rightarrow> int \<Rightarrow> string \<Rightarrow> bool \<Rightarrow>
   string list option \<Rightarrow> string list option \<Rightarrow> exn + SearchResults" where
  "TavilySearchTool_search L nw clk self q max_results search_depth include_answer
       include_domains exclude_domains =
     (case tavily_request L nw clk self q max_results search_depth include_answer
             include_domains exclude_domains of
        Inr search_results \<Rightarrow> Inr search_results
      | Inl (TimeoutException _) \<Rightarrow>
          Inl (TavilyAPIError (''Tavily search timeout after '' @ str_int (timeout self) @ ''s'') None)
      | Inl (RequestError m) \<Rightarrow>
          Inl (TavilyAPIError (''Tavily request failed: '' @ m) None)
      | Inl e \<Rightarrow>
          Inl (TavilyAPIError (''Unexpected Tavily search error: '' @ str_exn e) None))"

section \<open>The general client (tools/serp_search.py)\<close>

definition SerpSearchTool_init :: "string \<Rightarrow> int \<Rightarrow> tool" where
  "SerpSearchTool_init key t = \<lparr>api_key = key, timeout = t, base_url = ''https://serpapi.com/search''\<rparr>"

text \<open>The constructor of \<^verbatim>\<open>SerpSearchResult\<close>; \<^verbatim>\<open>position\<close> is constrained by \<^verbatim>\<open>ge=1\<close>.\<close>

definition SerpSearchResult_init ::
  "libs \<Rightarrow> json \<Rightarrow> json \<Rightarrow> json \<Rightarrow> json \<Rightarrow> json \<Rightarrow> json \<Rightarrow> SearchProvider \<Rightarrow> exn + SearchResult" where
  "SerpSearchResult_init L t u sn pos dl cl p =
     (case (as_str L t, as_str L u, as_str L sn, as_int L pos, as_opt_str L dl, as_opt_str L cl) of
        (Some t', Some u', Some sn', Some pos', Some dl', Some cl') \<Rightarrow>
          (if 1 \<le> pos' then Inr (SerpSearchResult t' u' sn' pos' dl' cl' p)
           else Inl (PyError (errtext L ''ValidationError'' [t, u, sn, pos, dl, cl])))
      | _ \<Rightarrow> Inl (PyError (errtext L ''ValidationError'' [t, u, sn, pos, dl, cl])))"

text \<open>The body of the conversion loop for the item at index \<open>i\<close> (lines 125 to 133).\<close>

definition serp_item :: "libs \<Rightarrow> int \<Rightarrow> json \<Rightarrow> exn + SearchResult" where
  "serp_item L i result =
     bindE (py_get L result ''title'' (JStr [])) (\<lambda>t.
     bindE (py_get L result ''link'' (JStr [])) (\<lambda>u.
     bindE (py_get L result ''snippet'' (JStr [])) (\<lambda>sn.
     bindE (py_get L result ''position'' (JInt (i + 1))) (\<lambda>pos.
     bindE (py_get L result ''displayed_link'' JNull) (\<lambda>dl.
     bindE (py_get L result ''cached_page_link'' JNull) (\<lambda>cl.
     SerpSearchResult_init L t u sn pos dl cl SERP))))))"

text \<open>\<^verbatim>\<open>for i, result in enumerate(organic_results)\<close>, with the list built so far.\<close>

fun convert_serp :: "libs \<Rightarrow> SearchResult list \<Rightarrow> int \<Rightarrow> json list \<Rightarrow> exn + SearchResult list" where
  "convert_serp L acc i [] = Inr acc"
| "convert_serp L acc i (result # rest) =
     (case serp_item L i result of
        Inl e \<Rightarrow> Inl e
      | Inr serp_result \<Rightarrow> convert_serp L (acc @ [serp_result]) (i + 1) rest)"

text \<open>\<^verbatim>\<open>SerpSearchTool._generate_summary\<close>.\<close>

definition generate_summary :: "SearchResult list \<Rightarrow> string" where
  "generate_summary rs =
     (if rs = [] then ''No search results found.''
      else
        (let top_results = take 3 rs;
             sources = map url top_results;
             summary_parts =
               [''Found '' @ str_int (int (length rs)) @ '' search results.'',
                ''Top sources: '' @ join '', '' (take 3 sources)]
         in join '' '' summary_parts))"

definition time_filters :: "(string \<times> string) list" where
  "time_filters =
     [(''hour'', ''qdr:h''), (''day'', ''qdr:d''), (''week'', ''qdr:w''),
      (''month'', ''qdr:m''), (''year'', ''qdr:y'')]"

text \<open>The request parameters (lines 69 to 89).\<close>

definition serp_params ::
  "tool \<Rightarrow> string \<Rightarrow> int \<Rightarrow> string \<Rightarrow> string \<Rightarrow> string \<Rightarrow> string option \<Rightarrow> json" where
  "serp_params self q max_results country language safe_search time_period =
     JObj
       ([(''api_key'', JStr (api_key self)),
         (''engine'', JStr ''google''),
         (''q'', JStr q),
         (''num'', JInt (min max_results 100)),
         (''google_domain'', JStr ''google.com''),
         (''gl'', JStr country),
         (''hl'', JStr language),
         (''safe'', JStr safe_search)] @
        (case time_period of
           None \<Rightarrow> []
         | Some tp \<Rightarrow>
             (if tp \<noteq> [] then
                (case map_of time_filters tp of
                   None \<Rightarrow> []
                 | Some f \<Rightarrow> [(''tbs'', JStr f)])
              else [])))"

text \<open>The body of the \<^verbatim>\<open>try\<close> of \<^verbatim>\<open>SerpSearchTool.search\<close>.\<close>

definition serp_request ::
  "libs \<Rightarrow> net \<Rightarrow> clock \<Rightarrow> tool \<Rightarrow> string \<Rightarrow> int \<Rightarrow> string \<Rightarrow> string \<Rightarrow> string \<Rightarrow>
   string option \<Rightarrow> exn + SearchResults" where
  "serp_request L nw clk self q max_results country language safe_search time_period =
     (let params = serp_params self q max_results country language safe_search time_period
      in case get nw (base_url self) params of
           Raised e \<Rightarrow> Inl e
         | Response response \<Rightarrow>
             (if status_code response \<noteq> 200 then
                Inl (SerpAPIError (status_error_msg L ''SerpAPI returned '' response)
                       (Some (status_code response)))
              else
                (case json_body response of
                   None \<Rightarrow> Inl (PyError (errtext L ''JSONDecodeError'' [JStr (body_text response)]))
                 | Some data \<Rightarrow>
                     bindE (py_in L ''error'' data) (\<lambda>has_error.
                     if has_error then
                       bindE (py_getitem L data ''error'') (\<lambda>v.
                         Inl (SerpAPIError (''SerpAPI error: '' @ str_of L v) None))
                     else
                       bindE (py_get L data ''organic_results'' (JArr [])) (\<lambda>organic_results.
                       bindE (py_iter L organic_results) (\<lambda>items.
                       bindE (convert_serp L [] 0 items) (\<lambda>results.
                         Inr \<lparr>query = q, results = results,
                              total_results = int (length results),
                              search_time = end_time clk - start_time clk,
                              providers_used = [SERP],
                              ai_summary =
                                (if results \<noteq> [] then Some (generate_summary results) else None),
                              timestamp = now clk\<rparr>)))))))"

text \<open>\<^verbatim>\<open>SerpSearchTool.search\<close>: the body under its three handlers.\<close>

definition SerpSearchTool_search ::
  "libs \<Rightarrow> net \<Rightarrow> clock \<Rightarrow> tool \<Rightarrow> string \<Rightarrow> int \<Rightarrow> string \<Rightarrow> string \<Rightarrow> string \<Rightarrow>
   string option \<Rightarrow> exn + SearchResults" where
  "SerpSearchTool_search L nw clk self q max_results country language safe_search time_period =
     (case serp_request L nw clk self q max_results country language safe_search time_period of
        Inr search_results \<Rightarrow> Inr search_results
      | Inl (TimeoutException _) \<Rightarrow>
          Inl (SerpAPIError (''SerpAPI search timeout after '' @ str_int (timeout self) @ ''s'') None)
      | Inl (RequestError m) \<Rightarrow>
          Inl (SerpAPIError (''SerpAPI request failed: '' @ m) None)
      | Inl e \<Rightarrow>
          Inl (SerpAPIError (''Unexpected SerpAPI search error: '' @ str_exn e) None))"

section \<open>The search orchestrator (agents/research_agent.py)\<close>

text \<open>
  A provider client, as \<^verbatim>\<open>intelligent_search\<close> sees it, is an object with one
  \<^verbatim>\<open>search\<close> method that returns a \<^verbatim>\<open>SearchResults\<close> or raises. The two call
  shapes are those of the source:
  \<^verbatim>\<open>tavily_tool.search(query, max_results, search_depth=..., include_answer=...)\<close> and
  \<^verbatim>\<open>serp_tool.search(query, max_results)\<close>.
\<close>

type_synonym tavily_tool = "string \<Rightarrow> int \<Rightarrow> string \<Rightarrow> bool \<Rightarrow> exn + SearchResults"
type_synonym serp_tool = "string \<Rightarrow> int \<Rightarrow> exn + SearchResults"

record Settings =
  tavily_api_key :: "string option"
  serp_api_key :: "string option"
  gmail_credentials_path :: string
  search_strategy :: string
  search_timeout :: int

record ResearchAgentDeps =
  settings :: Settings
  tavily_tool :: "tavily_tool option"
  serp_tool :: "serp_tool option"

text \<open>
  Everything outside the process that a run depends on: the library behaviour, the
  network, and the clock readings of each client.
\<close>

record world =
  lib :: libs
  network :: net
  tavily_clock :: clock
  serp_clock :: clock

text \<open>
  \<^verbatim>\<open>ResearchAgentDeps.__init__\<close>: a tool is created for each API key that is set and
  not empty. The keys are those of the settings, which
  \<^verbatim>\<open>AgentDependencies.__init__\<close> copies. The tool is represented by its
  \<^verbatim>\<open>search\<close> method with the arguments the orchestrator leaves at their defaults
  filled in.
\<close>

definition ResearchAgentDeps_init :: "world \<Rightarrow> Settings \<Rightarrow> ResearchAgentDeps" where
  "ResearchAgentDeps_init w st =
     \<lparr>settings = st,
      tavily_tool =
        (case tavily_api_key st of
           None \<Rightarrow> None
         | Some k \<Rightarrow>
             (if k \<noteq> [] then
                Some (\<lambda>q m d a.
                  TavilySearchTool_search (lib w) (network w) (tavily_clock w)
                    (TavilySearchTool_init k (search_timeout st)) q m d a None None)
              else None)),
      serp_tool =
        (case serp_api_key st of
           None \<Rightarrow> None
         | Some k \<Rightarrow>
             (if k \<noteq> [] then
                Some (\<lambda>q m.
                  SerpSearchTool_search (lib w) (network w) (serp_clock w)
                    (SerpSearchTool_init k (search_timeout st)) q m ''us'' ''en'' ''off'' None)
              else None))\<rparr>"

text \<open>
  The tail of the intelligent branch (lines 143 to 160): with still no results, raise
  the error that lists the configured providers; otherwise stamp the elapsed time and
  return.
\<close>

definition available_providers :: "ResearchAgentDeps \<Rightarrow> string list" where
  "available_providers deps =
     (if tavily_tool deps \<noteq> None then [''Tavily''] else []) @
     (if serp_tool deps \<noteq> None then [''SerpAPI''] else [])"

definition update_timing :: "clock \<Rightarrow> SearchResults \<Rightarrow> SearchResults" where
  "update_timing clk sr = sr\<lparr>search_time := end_time clk - start_time clk\<rparr>"

definition still_no_results ::
  "ResearchAgentDeps \<Rightarrow> clock \<Rightarrow> SearchResults \<Rightarrow> exn + SearchResults" where
  "still_no_results deps clk sr =
     (if results sr = [] then
        (if available_providers deps = []
         then Inl (SearchError ''No search providers configured'' None None)
         else Inl (SearchError (''All configured providers failed: '' @
                      join '', '' (available_providers deps)) None None))
      else Inr (update_timing clk sr))"

text \<open>
  The body of the outer \<^verbatim>\<open>try\<close>. The first component of the result is the sequence
  of client invocations the run made, in order.
\<close>

definition search_body ::
  "ResearchAgentDeps \<Rightarrow> string \<Rightarrow> int \<Rightarrow> clock \<Rightarrow> SearchProvider list \<times> (exn + SearchResults)" where
  "search_body deps q max_results clk =
     (let strategy = search_strategy (settings deps);
          search_results = \<lparr>query = q, results = [], total_results = 0, search_time = 0,
                             providers_used = [], ai_summary = None, timestamp = now clk\<rparr>
      in
      if strategy = ''tavily_only'' then
        (case tavily_tool deps of
           None \<Rightarrow> ([], Inl (SearchError ''Tavily API key not configured'' None None))
         | Some t \<Rightarrow>
             (case t q max_results ''advanced'' True of
                Inl e \<Rightarrow> ([TAVILY], Inl e)
              | Inr tavily_results \<Rightarrow> ([TAVILY], Inr (update_timing clk tavily_results))))
      else if strategy = ''serp_only'' then
        (case serp_tool deps of
           None \<Rightarrow> ([], Inl (SearchError ''SerpAPI key not configured'' None None))
         | Some s \<Rightarrow>
             (case s q max_results of
                Inl e \<Rightarrow> ([SERP], Inl e)
              | Inr serp_results \<Rightarrow> ([SERP], Inr (update_timing clk serp_results))))
      else
        (let (calls, search_results) =
               (case tavily_tool deps of
                  None \<Rightarrow> ([], search_results)
                | Some t \<Rightarrow>
                    (case t q max_results ''advanced'' True of
                       Inl e \<Rightarrow> ([TAVILY], search_results)
                     | Inr tavily_results \<Rightarrow> ([TAVILY], tavily_results)))
         in
         (case (if results search_results = [] then serp_tool deps else None) of
            Some s \<Rightarrow>
              (case s q max_results of
                 Inl e \<Rightarrow>
                   (calls @ [SERP],
                    Inl (SearchError ''All search providers failed: Tavily and SerpAPI errors''
                           None None))
               | Inr serp_results \<Rightarrow>
                   (calls @ [SERP], still_no_results deps clk serp_results))
          | None \<Rightarrow> (calls, still_no_results deps clk search_results))))"

text \<open>
  The handlers of the outer \<^verbatim>\<open>try\<close>: a \<^verbatim>\<open>SearchError\<close> (or a subclass) is re-raised
  as it is, any other exception is wrapped.
\<close>

definition intelligent_search ::
  "ResearchAgentDeps \<Rightarrow> string \<Rightarrow> int \<Rightarrow> clock \<Rightarrow> SearchProvider list \<times> (exn + SearchResults)" where
  "intelligent_search deps q max_results clk =
     (case search_body deps q max_results clk of
        (calls, Inr sr) \<Rightarrow> (calls, Inr sr)
      | (calls, Inl e) \<Rightarrow>
          (if is_SearchError e then (calls, Inl e)
           else (calls, Inl (SearchError (''Unexpected search error: '' @ str_exn e) None None))))"

section \<open>Responses and the research run (agents/models.py, agents/research_agent.py)\<close>

record EmailDraft =
  to :: "string list"
  subject :: string
  body :: string
  cc :: "string list option"
  bcc :: "string list option"
  attachments :: "string list option"
  draft_id :: "string option"
  created_at :: datetime

record ResearchEmailRequest =
  research_query :: string
  email_context :: string
  recipient_email :: string
  subject_hint :: "string option"
  tone :: string
  include_sources :: bool

text \<open>The dict \<^verbatim>\<open>response_data\<close> that \<^verbatim>\<open>run_research_agent\<close> returns as payload.\<close>

record response_data =
  rd_summary :: string
  rd_search_results :: SearchResults
  rd_sources :: "string list"
  rd_query :: string

datatype payload =
    SearchResultsData SearchResults
  | EmailDraftData EmailDraft
  | StrData string
  | ResearchData response_data

text \<open>
  \<^verbatim>\<open>AgentResponse\<close>, with \<^verbatim>\<open>data\<close> of type
  \<^verbatim>\<open>Optional[Union[SearchResults, EmailDraft, str]]\<close>. A model instance or \<open>None\<close>
  passed for \<^verbatim>\<open>data\<close> is kept as it is. The research run passes a dict, which
  pydantic validates against the union: what comes out of that (a payload, or a
  validation error) is library behaviour and a parameter of the run.
\<close>

record AgentResponse =
  success :: bool
  data :: "payload option"
  message :: string
  error :: "string option"
  execution_time :: real
  tokens_used :: "int option"

text \<open>
  What \<^verbatim>\<open>agent.run(prompt, deps=deps)\<close> returns: \<^verbatim>\<open>result.data\<close> and
  \<^verbatim>\<open>result.usage\<close> (absent, or an object with \<^verbatim>\<open>total_tokens\<close>).
\<close>

record usage =
  total_tokens :: "int option"

record 'a run_result =
  run_data :: 'a
  run_usage :: "usage option"

text \<open>
  One step of the loop over \<^verbatim>\<open>enumerate(search_results.results, 1)\<close> (lines 289 to
  302): the text appended to \<^verbatim>\<open>results_text\<close>.
\<close>

fun result_text :: "int \<Rightarrow> SearchResult \<Rightarrow> string" where
  "result_text i (TavilySearchResult t u c s pd rc p) =
     nl @ str_int i @ ''. **'' @ t @ ''**'' @ nl @
     ''   Source: '' @ u @ nl @
     ''   Content: '' @ c @ nl @
     (case pd of
        None \<Rightarrow> []
      | Some d \<Rightarrow> if d \<noteq> [] then ''   Published: '' @ d @ nl else [])"
| "result_text i (SerpSearchResult t u sn pos dl cl p) =
     nl @ str_int i @ ''. **'' @ t @ ''**'' @ nl @
     ''   Source: '' @ u @ nl @
     ''   Snippet: '' @ sn @ nl"

fun format_results ::
  "string \<Rightarrow> string list \<Rightarrow> int \<Rightarrow> SearchResult list \<Rightarrow> string \<times> string list" where
  "format_results results_text sources i [] = (results_text, sources)"
| "format_results results_text sources i (r # rs) =
     format_results (results_text @ result_text i r) (sources @ [url r]) (i + 1) rs"

definition research_prompt :: "string \<Rightarrow> string \<Rightarrow> string \<Rightarrow> string" where
  "research_prompt q summary results_text =
     nl @
     ''        Analyze and synthesize the following search results for the query: '' @
     dq @ q @ dq @ nl @ nl @ ''        '' @
     (if summary \<noteq> [] then ''AI Summary from Tavily: '' @ summary else []) @
     nl @ nl @ ''        Search Results:'' @ nl @ ''        '' @ results_text @ nl @
     nl @ ''        Please provide a comprehensive research summary that:'' @ nl @
     ''        1. Synthesizes key findings across all sources'' @ nl @
     ''        2. Identifies main themes and trends'' @ nl @
     ''        3. Highlights the most credible and recent information'' @ nl @
     ''        4. Notes any conflicting information or gaps'' @ nl @
     ''        5. Provides actionable insights where appropriate'' @ nl @
     ''        6. Maintains proper attribution to sources'' @ nl @ nl @
     ''        Focus on accuracy, clarity, and usefulness for the reader.'' @ nl @
     ''        ''"

text \<open>
  \<^verbatim>\<open>run_research_agent\<close>: first the body of the \<^verbatim>\<open>try\<close>, then the function with
  its two handlers. \<open>run\<close> is \<^verbatim>\<open>research_agent.run\<close>, \<open>default_deps\<close> what
  \<^verbatim>\<open>ResearchAgentDeps()\<close> gives, \<open>sclk\<close> the clock readings of the search and
  \<open>clk\<close> those of the run itself. \<open>validate_data\<close> is what the constructor of
  \<^verbatim>\<open>AgentResponse\<close> makes of the dict \<^verbatim>\<open>response_data\<close>.
\<close>

definition research_body ::
  "(response_data \<Rightarrow> exn + payload) \<Rightarrow>
   (string \<Rightarrow> ResearchAgentDeps \<Rightarrow> exn + string run_result) \<Rightarrow> exn + ResearchAgentDeps \<Rightarrow>
   clock \<Rightarrow> clock \<Rightarrow> string \<Rightarrow> int \<Rightarrow> bool \<Rightarrow> ResearchAgentDeps option \<Rightarrow> exn + AgentResponse" where
  "research_body validate_data run default_deps sclk clk q max_results create_summary deps0 =
     bindE (case deps0 of None \<Rightarrow> default_deps | Some d \<Rightarrow> Inr d) (\<lambda>deps.
     bindE (snd (intelligent_search deps q max_results sclk)) (\<lambda>search_results.
       if results search_results = [] then
         Inr \<lparr>success = False, data = None, message = ''No search results found'',
              error = Some ''Search returned no results'',
              execution_time = end_time clk - start_time clk, tokens_used = None\<rparr>
       else
         (let (results_text, sources) = format_results [] [] 1 (results search_results);
              summary = (case ai_summary search_results of None \<Rightarrow> [] | Some a \<Rightarrow> a);
              prompt = research_prompt q summary results_text
          in
          bindE (if create_summary then
                   bindE (run prompt deps) (\<lambda>result.
                     Inr (run_data result,
                          (case run_usage result of None \<Rightarrow> None | Some u \<Rightarrow> total_tokens u)))
                 else Inr (results_text, None)) (\<lambda>(research_summary, tokens).
            bindE (validate_data
                     \<lparr>rd_summary = research_summary, rd_search_results = search_results,
                      rd_sources = sources, rd_query = q\<rparr>) (\<lambda>validated.
              Inr \<lparr>success = True,
                   data = Some validated,
                   message = ''Research completed successfully with '' @
                     str_int (int (length (results search_results))) @ '' sources'',
                   error = None,
                   execution_time = end_time clk - start_time clk,
                   tokens_used = tokens\<rparr>)))))"

definition run_research_agent ::
  "(response_data \<Rightarrow> exn + payload) \<Rightarrow>
   (string \<Rightarrow> ResearchAgentDeps \<Rightarrow> exn + string run_result) \<Rightarrow> exn + ResearchAgentDeps \<Rightarrow>
   clock \<Rightarrow> clock \<Rightarrow> string \<Rightarrow> int \<Rightarrow> bool \<Rightarrow> ResearchAgentDeps option \<Rightarrow> AgentResponse" where
  "run_research_agent validate_data run default_deps sclk clk q max_results create_summary deps0 =
     (case research_body validate_data run default_deps sclk clk q max_results create_summary
             deps0 of
        Inr response \<Rightarrow> response
      | Inl e \<Rightarrow>
          (if is_SearchError e then
             \<lparr>success = False, data = None,
              message = ''Research failed due to search error'',
              error = Some (''Search failed: '' @ str_exn e),
              execution_time = end_time clk - start_time clk, tokens_used = None\<rparr>
           else
             \<lparr>success = False, data = None,
              message = ''Research failed due to unexpected error'',
              error = Some (''Research agent failed: '' @ str_exn e),
              execution_time = end_time clk - start_time clk, tokens_used = None\<rparr>))"

section \<open>The email run (agents/email_agent.py)\<close>

text \<open>
  Of the dependencies of the email agent, the run reads the mail tool only; the tool is
  represented by its \<^verbatim>\<open>create_draft\<close> method.
\<close>

record EmailAgentDeps =
  gmail_tool :: "(EmailDraft \<Rightarrow> exn + string) option"

text \<open>
  \<^verbatim>\<open>create_gmail_draft\<close>, the tool of the email agent; \<open>deps\<close> is
  \<^verbatim>\<open>ctx.deps\<close>.
\<close>

definition create_gmail_draft :: "libs \<Rightarrow> EmailAgentDeps \<Rightarrow> EmailDraft \<Rightarrow> exn + string" where
  "create_gmail_draft L deps email_draft =
     (case (case gmail_tool deps of
              None \<Rightarrow> Inl (PyError (errtext L ''AttributeError'' [JNull]))
            | Some create_draft \<Rightarrow> create_draft email_draft) of
        Inr new_id \<Rightarrow> Inr (''Gmail draft created with ID: '' @ new_id)
      | Inl (GmailAPIError m c) \<Rightarrow> Inl (GmailAPIError m c)
      | Inl e \<Rightarrow> Inl (GmailAPIError (''Unexpected error: '' @ str_exn e) None))"

text \<open>The loop of \<^verbatim>\<open>format_research_content\<close> over \<^verbatim>\<open>enumerate(sources[:5], 1)\<close>.\<close>

fun source_items :: "int \<Rightarrow> string list \<Rightarrow> string" where
  "source_items i [] = []"
| "source_items i (source # rest) =
     ''<li><a href='' @ dq @ source @ dq @ ''>Source '' @ str_int i @ ''</a></li>'' @ nl @
     source_items (i + 1) rest"

definition format_research_content :: "string \<Rightarrow> string list \<Rightarrow> bool \<Rightarrow> string" where
  "format_research_content research_content sources incl =
     ''<div>'' @ research_content @ ''</div>'' @
     (if incl \<and> sources \<noteq> [] then
        nl @ nl @ ''<h3>Sources:</h3>'' @ nl @ ''<ul>'' @ nl @
        source_items 1 (take 5 sources) @ ''</ul>''
      else [])"

definition agent_prompt :: "ResearchEmailRequest \<Rightarrow> string \<Rightarrow> string" where
  "agent_prompt request formatted_content =
     nl @ ''        Create a professional email for '' @ recipient_email request @
     '' based on the following research:'' @ nl @ nl @
     ''        **Research Query:** '' @ research_query request @ nl @
     ''        **Context:** '' @ email_context request @ nl @ ''        **Tone:** '' @
     tone request @ nl @ ''        **Subject Hint:** '' @
     (case subject_hint request of None \<Rightarrow> ''Generate appropriate subject'' | Some h \<Rightarrow> if h \<noteq> [] then h else ''Generate appropriate subject'') @
     nl @ nl @ ''        **Research Content:**'' @ nl @ ''        '' @
     formatted_content @ nl @ nl @ ''        Please create an email that:'' @ nl @
     ''        1. Has an appropriate subject line'' @ nl @
     ''        2. Addresses the recipient professionally'' @ nl @
     ''        3. Incorporates the research findings naturally'' @ nl @
     ''        4. Maintains the requested tone'' @ nl @
     ''        5. Includes proper source attribution if sources are provided'' @ nl @
     ''        6. Ends with an appropriate closing'' @ nl @ nl @
     ''        Return the email as an EmailDraft object with proper to, subject, and body fields.'' @
     nl @ ''        ''"

text \<open>
  \<^verbatim>\<open>run_email_agent\<close>: the body of the \<^verbatim>\<open>try\<close>, then the function with its handler.
  \<open>run\<close> is \<^verbatim>\<open>email_agent.run\<close> and \<open>default_deps\<close> what \<^verbatim>\<open>EmailAgentDeps()\<close>
  gives. \<open>new_context\<close> is the library's constructor call
  \<^verbatim>\<open>RunContext(deps=deps, usage=result.usage)\<close>, evaluated inside the inner \<^verbatim>\<open>try\<close>
  before the tool is called: it gives the dependencies the context carries, or raises.
\<close>

definition email_body ::
  "libs \<Rightarrow> (EmailAgentDeps \<Rightarrow> usage option \<Rightarrow> exn + EmailAgentDeps) \<Rightarrow>
   (string \<Rightarrow> EmailAgentDeps \<Rightarrow> exn + EmailDraft option run_result) \<Rightarrow>
   exn + EmailAgentDeps \<Rightarrow> clock \<Rightarrow> ResearchEmailRequest \<Rightarrow> string \<Rightarrow> string list option \<Rightarrow>
   EmailAgentDeps option \<Rightarrow> exn + AgentResponse" where
  "email_body L new_context run default_deps clk request research_content sources0 deps0 =
     bindE (case deps0 of None \<Rightarrow> default_deps | Some d \<Rightarrow> Inr d) (\<lambda>deps.
       let sources = (case sources0 of None \<Rightarrow> [] | Some ss \<Rightarrow> ss);
           formatted_content =
             format_research_content research_content sources (include_sources request)
       in
       bindE (run (agent_prompt request formatted_content) deps) (\<lambda>result.
         let result_data =
               (case run_data result of
                  None \<Rightarrow> None
                | Some d \<Rightarrow>
                    (case bindE (new_context deps (run_usage result))
                            (\<lambda>ctx_deps. create_gmail_draft L ctx_deps d) of
                       Inr reply \<Rightarrow> Some (d\<lparr>draft_id := Some (last (split '': '' reply))\<rparr>)
                     | Inl e \<Rightarrow> Some d))
         in
         Inr \<lparr>success = True,
              data = map_option EmailDraftData result_data,
              message = ''Email draft created successfully'',
              error = None,
              execution_time = end_time clk - start_time clk,
              tokens_used = (case run_usage result of None \<Rightarrow> None | Some u \<Rightarrow> total_tokens u)\<rparr>))"

definition run_email_agent ::
  "libs \<Rightarrow> (EmailAgentDeps \<Rightarrow> usage option \<Rightarrow> exn + EmailAgentDeps) \<Rightarrow>
   (string \<Rightarrow> EmailAgentDeps \<Rightarrow> exn + EmailDraft option run_result) \<Rightarrow>
   exn + EmailAgentDeps \<Rightarrow> clock \<Rightarrow> ResearchEmailRequest \<Rightarrow> string \<Rightarrow> string list option \<Rightarrow>
   EmailAgentDeps option \<Rightarrow> AgentResponse" where
  "run_email_agent L new_context run default_deps clk request research_content sources0 deps0 =
     (case email_body L new_context run default_deps clk request research_content sources0
             deps0 of
        Inr response \<Rightarrow> response
      | Inl e \<Rightarrow>
          \<lparr>success = False, data = None,
           message = ''Failed to create email draft'',
           error = Some (''Email agent failed: '' @ str_exn e),
           execution_time = end_time clk - start_time clk, tokens_used = None\<rparr>)"

section \<open>The n8n passthrough (n8n_integration.py)\<close>

text \<open>The dict built for one result (lines 49 to 57).\<close>

fun n8n_result :: "SearchResult \<Rightarrow> json" where
  "n8n_result (TavilySearchResult t u c s pd rc p) =
     JObj [(''title'', JStr t), (''url'', JStr u),
           (''provider'', JStr (case p of TAVILY \<Rightarrow> ''tavily'' | SERP \<Rightarrow> ''serp'')),
           (''content'', JStr c),
           (''score'', JFloat s),
           (''position'', JInt 0),
           (''published_date'', (case pd of None \<Rightarrow> JNull | Some d \<Rightarrow> JStr d))]"
| "n8n_result (SerpSearchResult t u sn pos dl cl p) =
     JObj [(''title'', JStr t), (''url'', JStr u),
           (''provider'', JStr (case p of TAVILY \<Rightarrow> ''tavily'' | SERP \<Rightarrow> ''serp'')),
           (''content'', JStr sn),
           (''score'', JFloat 0),
           (''position'', JInt pos),
           (''published_date'', JNull)]"

text \<open>
  \<^verbatim>\<open>n8n_intelligent_search\<close>: the strategy given by the caller is assigned to the
  settings of freshly built dependencies, with no validation, and the search is run.
\<close>

definition n8n_intelligent_search ::
  "libs \<Rightarrow> exn + ResearchAgentDeps \<Rightarrow> clock \<Rightarrow> string \<Rightarrow> int \<Rightarrow> string \<Rightarrow> json" where
  "n8n_intelligent_search L default_deps sclk q max_results strategy =
     (case bindE default_deps (\<lambda>deps0.
             let deps = deps0\<lparr>settings := (settings deps0)\<lparr>search_strategy := strategy\<rparr>\<rparr>
             in snd (intelligent_search deps q max_results sclk)) of
        Inr rs \<Rightarrow>
          (let search_results = map n8n_result (results rs)
           in JObj [(''success'', JBool True),
                    (''query'', JStr q),
                    (''total_results'', JInt (int (length search_results))),
                    (''search_time'', JFloat (search_time rs)),
                    (''providers_used'',
                       JArr (map (\<lambda>p. JStr (case p of TAVILY \<Rightarrow> ''tavily'' | SERP \<Rightarrow> ''serp''))
                              (providers_used rs))),
                    (''ai_summary'', (case ai_summary rs of None \<Rightarrow> JNull | Some a \<Rightarrow> JStr a)),
                    (''results'', JArr search_results),
                    (''timestamp'', JStr (isoformat L (timestamp rs)))])
      | Inl e \<Rightarrow>
          JObj [(''success'', JBool False),
                (''error'', JStr (str_exn e)),
                (''query'', JStr q),
                (''results'', JArr [])])"

section \<open>Sample inputs\<close>

text \<open>
  Concrete inputs on which the model is evaluated below. \<open>sample_libs\<close> is one
  possible library behaviour: a value is accepted for a field exactly when it has the
  JSON type of the field (an integer also for a \<^verbatim>\<open>float\<close>).
\<close>

definition sample_libs :: libs where
  "sample_libs =
     \<lparr>as_str = (\<lambda>j. case j of JStr s \<Rightarrow> Some s | _ \<Rightarrow> None),
      as_float = (\<lambda>j. case j of JFloat r \<Rightarrow> Some r | JInt i \<Rightarrow> Some (real_of_int i) | _ \<Rightarrow> None),
      as_int = (\<lambda>j. case j of JInt i \<Rightarrow> Some i | _ \<Rightarrow> None),
      str_of = (\<lambda>j. case j of JStr s \<Rightarrow> s | _ \<Rightarrow> ''?''),
      errtext = (\<lambda>c vs. c),
      isoformat = (\<lambda>t. str_nat t)\<rparr>"

definition clk0 :: clock where
  "clk0 = \<lparr>start_time = 10, end_time = 12, now = 1700000000\<rparr>"

definition sample_settings :: "string option \<Rightarrow> string option \<Rightarrow> string \<Rightarrow> Settings" where
  "sample_settings tavily_key serp_key strategy =
     \<lparr>tavily_api_key = tavily_key, serp_api_key = serp_key,
      gmail_credentials_path = ''./credentials/credentials.json'',
      search_strategy = strategy, search_timeout = 30\<rparr>"

definition sample_world :: "net \<Rightarrow> world" where
  "sample_world nw = \<lparr>lib = sample_libs, network = nw, tavily_clock = clk0, serp_clock = clk0\<rparr>"

text \<open>The dependencies built with both API keys set, and with the SerpAPI key only.\<close>

definition both_keys :: "net \<Rightarrow> string \<Rightarrow> ResearchAgentDeps" where
  "both_keys nw strategy =
     ResearchAgentDeps_init (sample_world nw)
       (sample_settings (Some ''tvly-key'') (Some ''serp-key'') strategy)"

definition serp_key_only :: "net \<Rightarrow> string \<Rightarrow> ResearchAgentDeps" where
  "serp_key_only nw strategy =
     ResearchAgentDeps_init (sample_world nw) (sample_settings None (Some ''serp-key'') strategy)"

definition sample_tavily :: "net \<Rightarrow> tavily_tool" where
  "sample_tavily nw = (\<lambda>q m d a.
     TavilySearchTool_search sample_libs nw clk0 (TavilySearchTool_init ''tvly-key'' 30)
       q m d a None None)"

definition sample_serp :: "net \<Rightarrow> serp_tool" where
  "sample_serp nw = (\<lambda>q m.
     SerpSearchTool_search sample_libs nw clk0 (SerpSearchTool_init ''serp-key'' 30)
       q m ''us'' ''en'' ''off'' None)"

definition ok_response :: "json \<Rightarrow> http_outcome" where
  "ok_response j = Response \<lparr>status_code = 200, json_body = Some j, body_text = []\<rparr>"

definition tavily_two_raw :: "json list" where
  "tavily_two_raw =
     [JObj [(''title'', JStr ''A1''), (''url'', JStr ''https://a.example/1''),
            (''content'', JStr ''c1''), (''score'', JFloat 0.95)],
      JObj [(''title'', JStr ''A2''), (''url'', JStr ''https://a.example/2''),
            (''content'', JStr ''c2''), (''score'', JFloat 0.8),
            (''published_date'', JStr ''2024-02-01'')]]"

definition tavily_two_items :: "(string \<times> json) list" where
  "tavily_two_items = [(''results'', JArr tavily_two_raw), (''answer'', JStr ''An answer'')]"

definition serp_one_raw :: "json list" where
  "serp_one_raw =
     [JObj [(''title'', JStr ''B1''), (''link'', JStr ''https://b.example/1''),
            (''snippet'', JStr ''s1'')]]"

definition serp_one_item :: "(string \<times> json) list" where
  "serp_one_item = [(''organic_results'', JArr serp_one_raw)]"

text \<open>
  Four states of the network: the first provider times out and the second answers with
  one item; the first answers with two items; the first answers with an empty list and
  the second with one item; both answer with empty lists; both are unreachable.
\<close>

definition net_timeout_then_one :: net where
  "net_timeout_then_one =
     \<lparr>post = (\<lambda>u p. Raised (TimeoutException ''timed out'')),
      get = (\<lambda>u p. ok_response (JObj serp_one_item))\<rparr>"

definition net_two_items :: net where
  "net_two_items =
     \<lparr>post = (\<lambda>u p. ok_response (JObj tavily_two_items)),
      get = (\<lambda>u p. Raised (RequestError ''unreachable''))\<rparr>"

definition net_empty_then_one :: net where
  "net_empty_then_one =
     \<lparr>post = (\<lambda>u p. ok_response (JObj [(''results'', JArr [])])),
      get = (\<lambda>u p. ok_response (JObj serp_one_item))\<rparr>"

definition net_empty :: net where
  "net_empty =
     \<lparr>post = (\<lambda>u p. ok_response (JObj [(''results'', JArr [])])),
      get = (\<lambda>u p. ok_response (JObj [(''organic_results'', JArr [])]))\<rparr>"

definition net_down :: net where
  "net_down =
     \<lparr>post = (\<lambda>u p. Raised (TimeoutException ''timed out'')),
      get = (\<lambda>u p. Raised (RequestError ''unreachable''))\<rparr>"

text \<open>The envelopes the two clients build from the sample answers.\<close>

definition serp_envelope :: SearchResults where
  "serp_envelope =
     \<lparr>query = ''x'',
      results = [SerpSearchResult ''B1'' ''https://b.example/1'' ''s1'' 1 None None SERP],
      total_results = 1, search_time = 2, providers_used = [SERP],
      ai_summary = Some ''Found 1 search results. Top sources: https://b.example/1'',
      timestamp = 1700000000\<rparr>"

definition tavily_envelope :: SearchResults where
  "tavily_envelope =
     \<lparr>query = ''x'',
      results = [TavilySearchResult ''A1'' ''https://a.example/1'' ''c1'' 0.95 None None TAVILY,
                 TavilySearchResult ''A2'' ''https://a.example/2'' ''c2'' 0.8
                   (Some ''2024-02-01'') None TAVILY],
      total_results = 2, search_time = 2, providers_used = [TAVILY],
      ai_summary = Some ''An answer'', timestamp = 1700000000\<rparr>"

definition empty_tavily_envelope :: SearchResults where
  "empty_tavily_envelope =
     \<lparr>query = ''x'', results = [], total_results = 0, search_time = 2,
      providers_used = [TAVILY], ai_summary = None, timestamp = 1700000000\<rparr>"

definition empty_serp_envelope :: SearchResults where
  "empty_serp_envelope =
     \<lparr>query = ''x'', results = [], total_results = 0, search_time = 2,
      providers_used = [SERP], ai_summary = None, timestamp = 1700000000\<rparr>"

text \<open>
  For the research and email runs: a summarizer that raises, a request, the draft the
  email agent generates, the agent's result, and a mail tool whose call is refused.
\<close>

definition failing_summarizer :: "string \<Rightarrow> ResearchAgentDeps \<Rightarrow> exn + string run_result" where
  "failing_summarizer prompt deps = Inl (PyError ''model overloaded'')"

definition sample_request :: ResearchEmailRequest where
  "sample_request =
     \<lparr>research_query = ''x'', email_context = ''quarterly review'',
      recipient_email = ''colleague@company.com'', subject_hint = None,
      tone = ''professional'', include_sources = True\<rparr>"

definition sample_draft :: EmailDraft where
  "sample_draft =
     \<lparr>to = [''colleague@company.com''], subject = ''Findings'', body = ''<p>Hello</p>'',
      cc = None, bcc = None, attachments = None, draft_id = None, created_at = 1700000000\<rparr>"

definition sample_email_run ::
  "string \<Rightarrow> EmailAgentDeps \<Rightarrow> exn + EmailDraft option run_result" where
  "sample_email_run prompt deps =
     Inr \<lparr>run_data = Some sample_draft, run_usage = Some \<lparr>total_tokens = Some 321\<rparr>\<rparr>"

definition refusing_gmail :: "EmailDraft \<Rightarrow> exn + string" where
  "refusing_gmail d = Inl (GmailAPIError ''Gmail API error: 403 - Forbidden'' (Some 403))"

text \<open>
  A generated draft that already carries an id, and the agent's result with it; a
  context constructor that succeeds and one that raises; and one possible outcome of
  validating the research dict against the union: it is read as a \<^verbatim>\<open>SearchResults\<close>
  by its \<^verbatim>\<open>query\<close> key, the other fields at their defaults.
\<close>

definition draft_with_id :: EmailDraft where
  "draft_with_id = sample_draft\<lparr>draft_id := Some ''r-generated''\<rparr>"

definition email_run_with_id ::
  "string \<Rightarrow> EmailAgentDeps \<Rightarrow> exn + EmailDraft option run_result" where
  "email_run_with_id prompt deps =
     Inr \<lparr>run_data = Some draft_with_id, run_usage = Some \<lparr>total_tokens = Some 321\<rparr>\<rparr>"

definition sample_context :: "EmailAgentDeps \<Rightarrow> usage option \<Rightarrow> exn + EmailAgentDeps" where
  "sample_context deps u = Inr deps"

definition failing_context :: "EmailAgentDeps \<Rightarrow> usage option \<Rightarrow> exn + EmailAgentDeps" where
  "failing_context deps u = Inl (PyError ''missing required arguments'')"

definition sample_validate_data :: "response_data \<Rightarrow> exn + payload" where
  "sample_validate_data rd =
     Inr (SearchResultsData
            \<lparr>query = rd_query rd, results = [], total_results = 0, search_time = 0,
             providers_used = [], ai_summary = None, timestamp = 1700000000\<rparr>)"

section \<open>Lemmas about the clients\<close>

lemmas client_defs =
  TavilySearchTool_search_def tavily_request_def TavilySearchTool_init_def tavily_payload_def
  SerpSearchTool_search_def serp_request_def SerpSearchTool_init_def serp_params_def
  time_filters_def serp_item_def tavily_item_def SerpSearchResult_init_def
  TavilySearchResult_init_def py_get_def py_in_def py_iter_def py_getitem_def bindE_def
  as_opt_str_def generate_summary_def status_error_msg_def str_int_def str_nat.simps

lemmas orchestrator_defs =
  intelligent_search_def search_body_def still_no_results_def available_providers_def

lemmas sample_defs =
  sample_libs_def clk0_def sample_settings_def sample_world_def both_keys_def
  serp_key_only_def sample_tavily_def sample_serp_def ok_response_def
  tavily_two_raw_def tavily_two_items_def serp_one_raw_def serp_one_item_def
  net_timeout_then_one_def net_two_items_def net_empty_then_one_def net_empty_def
  net_down_def serp_envelope_def tavily_envelope_def empty_tavily_envelope_def
  empty_serp_envelope_def failing_summarizer_def sample_request_def sample_draft_def
  sample_email_run_def refusing_gmail_def draft_with_id_def email_run_with_id_def
  sample_context_def failing_context_def sample_validate_data_def
  ResearchAgentDeps_init_def

lemma bindE_Inr_iff: "bindE m f = Inr y \<longleftrightarrow> (\<exists>x. m = Inr x \<and> f x = Inr y)"
  by (cases m) (simp_all add: bindE_def)

lemma convert_tavily_acc:
  "convert_tavily L acc items = Inr rs \<Longrightarrow>
     \<exists>new. rs = acc @ new \<and> length new = length items \<and>
           (\<forall>k < length items. tavily_item L (items ! k) = Inr (new ! k))"
proof (induction items arbitrary: acc)
  case Nil
  then show ?case by simp
next
  case (Cons r rest)
  from Cons.prems obtain x where x: "tavily_item L r = Inr x"
    and rec: "convert_tavily L (acc @ [x]) rest = Inr rs"
    by (auto split: sum.splits)
  from Cons.IH [OF rec] obtain new where new: "rs = (acc @ [x]) @ new"
    "length new = length rest"
    "\<forall>k < length rest. tavily_item L (rest ! k) = Inr (new ! k)"
    by blast
  have "\<forall>k < length (r # rest). tavily_item L ((r # rest) ! k) = Inr ((x # new) ! k)"
    using x new(3) by (auto simp: nth_Cons split: nat.splits)
  with new(1,2) show ?case
    by (intro exI [of _ "x # new"]) simp
qed

lemma convert_serp_acc:
  "convert_serp L acc i items = Inr rs \<Longrightarrow>
     \<exists>new. rs = acc @ new \<and> length new = length items \<and>
           (\<forall>k < length items. serp_item L (i + int k) (items ! k) = Inr (new ! k))"
proof (induction items arbitrary: acc i)
  case Nil
  then show ?case by simp
next
  case (Cons r rest)
  from Cons.prems obtain x where x: "serp_item L i r = Inr x"
    and rec: "convert_serp L (acc @ [x]) (i + 1) rest = Inr rs"
    by (auto split: sum.splits)
  from Cons.IH [OF rec] obtain new where new: "rs = (acc @ [x]) @ new"
    "length new = length rest"
    "\<forall>k < length rest. serp_item L (i + 1 + int k) (rest ! k) = Inr (new ! k)"
    by blast
  have "\<forall>k < length (r # rest). serp_item L (i + int k) ((r # rest) ! k) = Inr ((x # new) ! k)"
    using x new(3) by (auto simp: nth_Cons add.assoc split: nat.splits)
  with new(1,2) show ?case
    by (intro exI [of _ "x # new"]) simp
qed

lemma TavilySearchResult_init_Inr:
  assumes "TavilySearchResult_init L t u c s pd rc p = Inr x"
  shows "\<exists>t' u' c' s' pd' rc'.
           x = TavilySearchResult t' u' c' s' pd' rc' p \<and>
           as_str L t = Some t' \<and> as_str L u = Some u' \<and> as_str L c = Some c' \<and>
           as_float L s = Some s' \<and> 0 \<le> s' \<and> s' \<le> 1 \<and>
           as_opt_str L pd = Some pd' \<and> as_opt_str L rc = Some rc'"
  using assms
  by (cases "as_str L t"; cases "as_str L u"; cases "as_str L c"; cases "as_float L s";
      cases "as_opt_str L pd"; cases "as_opt_str L rc")
     (auto simp: TavilySearchResult_init_def split: if_splits)

lemma SerpSearchResult_init_Inr:
  assumes "SerpSearchResult_init L t u sn pos dl cl p = Inr x"
  shows "\<exists>t' u' sn' pos' dl' cl'.
           x = SerpSearchResult t' u' sn' pos' dl' cl' p \<and>
           as_str L t = Some t' \<and> as_str L u = Some u' \<and> as_str L sn = Some sn' \<and>
           as_int L pos = Some pos' \<and> 1 \<le> pos' \<and>
           as_opt_str L dl = Some dl' \<and> as_opt_str L cl = Some cl'"
  using assms
  by (cases "as_str L t"; cases "as_str L u"; cases "as_str L sn"; cases "as_int L pos";
      cases "as_opt_str L dl"; cases "as_opt_str L cl")
     (auto simp: SerpSearchResult_init_def split: if_splits)

lemma tavily_item_provider:
  "tavily_item L r = Inr x \<Longrightarrow> provider x = TAVILY"
  by (auto simp: tavily_item_def bindE_Inr_iff dest!: TavilySearchResult_init_Inr)

lemma serp_item_provider:
  "serp_item L i r = Inr x \<Longrightarrow> provider x = SERP"
  by (auto simp: serp_item_def bindE_Inr_iff dest!: SerpSearchResult_init_Inr)

lemma TavilySearchTool_search_Inr:
  "TavilySearchTool_search L nw clk self q m d a idom edom = Inr env \<longleftrightarrow>
   tavily_request L nw clk self q m d a idom edom = Inr env"
  by (simp add: TavilySearchTool_search_def split: sum.splits exn.splits)

lemma SerpSearchTool_search_Inr:
  "SerpSearchTool_search L nw clk self q m c l ss tp = Inr env \<longleftrightarrow>
   serp_request L nw clk self q m c l ss tp = Inr env"
  by (simp add: SerpSearchTool_search_def split: sum.splits exn.splits)

lemma TavilySearchTool_search_Inl:
  "TavilySearchTool_search L nw clk self q m d a idom edom = Inl e \<Longrightarrow>
   \<exists>msg. e = TavilyAPIError msg None"
  by (auto simp: TavilySearchTool_search_def split: sum.splits exn.splits)

lemma SerpSearchTool_search_Inl:
  "SerpSearchTool_search L nw clk self q m c l ss tp = Inl e \<Longrightarrow>
   \<exists>msg. e = SerpAPIError msg None"
  by (auto simp: SerpSearchTool_search_def split: sum.splits exn.splits)

lemma tavily_request_Inr:
  assumes "tavily_request L nw clk self q m d a idom edom = Inr env"
  shows "\<exists>resp data raw items answer.
           post nw (base_url self @ ''/search'') (tavily_payload self q m d a idom edom)
             = Response resp \<and>
           status_code resp = 200 \<and> json_body resp = Some data \<and>
           py_get L data ''results'' (JArr []) = Inr raw \<and>
           py_iter L raw = Inr items \<and>
           convert_tavily L [] items = Inr (results env) \<and>
           (if a then py_get L data ''answer'' JNull else Inr JNull) = Inr answer \<and>
           as_opt_str L answer = Some (ai_summary env) \<and>
           total_results env = int (length (results env)) \<and>
           providers_used env = [TAVILY] \<and> query env = q"
  using assms
  by (auto simp: tavily_request_def Let_def bindE_Inr_iff
           split: http_outcome.splits if_splits option.splits)

lemma serp_request_Inr:
  assumes "serp_request L nw clk self q m c l ss tp = Inr env"
  shows "\<exists>resp data raw items.
           get nw (base_url self) (serp_params self q m c l ss tp) = Response resp \<and>
           status_code resp = 200 \<and> json_body resp = Some data \<and>
           py_in L ''error'' data = Inr False \<and>
           py_get L data ''organic_results'' (JArr []) = Inr raw \<and>
           py_iter L raw = Inr items \<and>
           convert_serp L [] 0 items = Inr (results env) \<and>
           ai_summary env =
             (if results env \<noteq> [] then Some (generate_summary (results env)) else None) \<and>
           total_results env = int (length (results env)) \<and>
           providers_used env = [SERP] \<and> query env = q"
  using assms
  by (auto simp: serp_request_def Let_def bindE_Inr_iff
           split: http_outcome.splits if_splits option.splits)

lemma TavilySearchTool_search_envelope:
  assumes "TavilySearchTool_search L nw clk self q m d a idom edom = Inr env"
  shows "providers_used env = [TAVILY] \<and> (\<forall>x \<in> set (results env). provider x = TAVILY)"
proof -
  from assms have "tavily_request L nw clk self q m d a idom edom = Inr env"
    by (simp add: TavilySearchTool_search_Inr)
  from tavily_request_Inr [OF this] obtain items where
    conv: "convert_tavily L [] items = Inr (results env)" and pu: "providers_used env = [TAVILY]"
    by blast
  from convert_tavily_acc [OF conv] have
    len: "length (results env) = length items" and
    nth: "\<forall>k < length items. tavily_item L (items ! k) = Inr (results env ! k)"
    by auto
  have "provider x = TAVILY" if "x \<in> set (results env)" for x
  proof -
    from that obtain k where "k < length (results env)" "results env ! k = x"
      by (auto simp: in_set_conv_nth)
    with len nth have "tavily_item L (items ! k) = Inr x" by auto
    then show ?thesis by (rule tavily_item_provider)
  qed
  with pu show ?thesis by blast
qed

lemma SerpSearchTool_search_envelope:
  assumes "SerpSearchTool_search L nw clk self q m c l ss tp = Inr env"
  shows "providers_used env = [SERP] \<and> (\<forall>x \<in> set (results env). provider x = SERP)"
proof -
  from assms have "serp_request L nw clk self q m c l ss tp = Inr env"
    by (simp add: SerpSearchTool_search_Inr)
  from serp_request_Inr [OF this] obtain items where
    conv: "convert_serp L [] 0 items = Inr (results env)" and pu: "providers_used env = [SERP]"
    by blast
  from convert_serp_acc [OF conv] have
    len: "length (results env) = length items" and
    nth: "\<forall>k < length items. serp_item L (0 + int k) (items ! k) = Inr (results env ! k)"
    by auto
  have "provider x = SERP" if "x \<in> set (results env)" for x
  proof -
    from that obtain k where "k < length (results env)" "results env ! k = x"
      by (auto simp: in_set_conv_nth)
    with len nth have "serp_item L (0 + int k) (items ! k) = Inr x" by auto
    then show ?thesis by (rule serp_item_provider)
  qed
  with pu show ?thesis by blast
qed

section \<open>Lemmas about the orchestrator\<close>

lemma still_no_results_settings:
  "still_no_results (deps\<lparr>settings := st\<rparr>) clk sr = still_no_results deps clk sr"
  by (simp add: still_no_results_def available_providers_def)

lemma search_body_default_strategy:
  assumes "s \<noteq> ''tavily_only''" and "s \<noteq> ''serp_only''"
    and "s' \<noteq> ''tavily_only''" and "s' \<noteq> ''serp_only''"
  shows "search_body (deps\<lparr>settings := (settings deps)\<lparr>search_strategy := s\<rparr>\<rparr>) q m clk =
         search_body (deps\<lparr>settings := (settings deps)\<lparr>search_strategy := s'\<rparr>\<rparr>) q m clk"
  using assms
  by (simp add: search_body_def still_no_results_settings Let_def
           split: option.split sum.split prod.split)

text \<open>What a run that returns an envelope looks like, whatever the tools are.\<close>

lemma intelligent_search_success:
  assumes "intelligent_search deps q m clk = (calls, Inr env)"
  shows "(calls = [TAVILY] \<and>
            (\<exists>t ra. tavily_tool deps = Some t \<and> t q m ''advanced'' True = Inr ra \<and>
                    env = ra\<lparr>search_time := end_time clk - start_time clk\<rparr>)) \<or>
         ((calls = [SERP] \<or> calls = [TAVILY, SERP]) \<and>
            (\<exists>s rb. serp_tool deps = Some s \<and> s q m = Inr rb \<and>
                    env = rb\<lparr>search_time := end_time clk - start_time clk\<rparr>))"
  using assms
  by (auto simp: orchestrator_defs update_timing_def Let_def
           split: sum.splits option.splits if_splits)

lemma tavily_tool_init:
  "tavily_tool (ResearchAgentDeps_init w st) = Some t \<Longrightarrow>
   \<exists>k. t = (\<lambda>q m d a. TavilySearchTool_search (lib w) (network w) (tavily_clock w)
                (TavilySearchTool_init k (search_timeout st)) q m d a None None)"
  by (auto simp: ResearchAgentDeps_init_def split: option.splits if_splits)

lemma serp_tool_init:
  "serp_tool (ResearchAgentDeps_init w st) = Some s \<Longrightarrow>
   \<exists>k. s = (\<lambda>q m. SerpSearchTool_search (lib w) (network w) (serp_clock w)
                (SerpSearchTool_init k (search_timeout st)) q m ''us'' ''en'' ''off'' None)"
  by (auto simp: ResearchAgentDeps_init_def split: option.splits if_splits)

lemma init_success_provider:
  assumes run: "intelligent_search (ResearchAgentDeps_init w st) q m clk = (calls, Inr env)"
  shows "calls \<noteq> [] \<and> distinct calls \<and> providers_used env = [last calls] \<and>
         (\<forall>x \<in> set (results env). provider x = last calls)"
proof -
  let ?deps = "ResearchAgentDeps_init w st"
  from intelligent_search_success [OF run] consider
    (A) t ra where "calls = [TAVILY]" "tavily_tool ?deps = Some t"
        "t q m ''advanced'' True = Inr ra"
        "env = ra\<lparr>search_time := end_time clk - start_time clk\<rparr>"
  | (B) s rb where "calls = [SERP] \<or> calls = [TAVILY, SERP]" "serp_tool ?deps = Some s"
        "s q m = Inr rb" "env = rb\<lparr>search_time := end_time clk - start_time clk\<rparr>"
    by blast
  then show ?thesis
  proof cases
    case A
    from tavily_tool_init [OF A(2)] A(3) obtain k where
      "TavilySearchTool_search (lib w) (network w) (tavily_clock w)
         (TavilySearchTool_init k (search_timeout st)) q m ''advanced'' True None None = Inr ra"
      by auto
    from TavilySearchTool_search_envelope [OF this] A(1,4) show ?thesis by simp
  next
    case B
    from serp_tool_init [OF B(2)] B(3) obtain k where
      "SerpSearchTool_search (lib w) (network w) (serp_clock w)
         (SerpSearchTool_init k (search_timeout st)) q m ''us'' ''en'' ''off'' None = Inr rb"
      by auto
    from SerpSearchTool_search_envelope [OF this] B(1,4) show ?thesis by auto
  qed
qed

lemma intelligent_search_nonempty:
  assumes "intelligent_search deps q m clk = (calls, Inr env)"
    and "search_strategy (settings deps) \<noteq> ''tavily_only''"
    and "search_strategy (settings deps) \<noteq> ''serp_only''"
  shows "results env \<noteq> []"
  using assms
  by (auto simp: orchestrator_defs update_timing_def Let_def
           split: sum.splits option.splits if_splits)

lemma tavily_raised_then_serp:
  assumes "intelligent_search deps q m clk = (calls, Inr env)"
    and "search_strategy (settings deps) \<noteq> ''tavily_only''"
    and "search_strategy (settings deps) \<noteq> ''serp_only''"
    and "tavily_tool deps = Some t" and "t q m ''advanced'' True = Inl e"
  shows "calls = [TAVILY, SERP]"
  using assms
  by (auto simp: orchestrator_defs update_timing_def Let_def
           split: sum.splits option.splits if_splits)

lemma intelligent_search_raises_SearchError:
  "snd (intelligent_search deps q m clk) = Inl e \<Longrightarrow> is_SearchError e"
  by (auto simp: orchestrator_defs update_timing_def Let_def
           split: sum.splits option.splits if_splits prod.splits)

text \<open>
  The three errors a run under the intelligent strategy can end with, and when: the
  fixed text of line 141 when the SerpAPI call raised, whatever was configured; the
  text for no provider at all; the text that lists the configured providers.
\<close>

lemma intelligent_failure_messages:
  assumes "search_strategy (settings deps) \<noteq> ''tavily_only''"
    and "search_strategy (settings deps) \<noteq> ''serp_only''"
    and "snd (intelligent_search deps q m clk) = Inl e"
  shows "(e = SearchError ''All search providers failed: Tavily and SerpAPI errors'' None None \<and>
          (\<exists>s x. serp_tool deps = Some s \<and> s q m = Inl x)) \<or>
         (e = SearchError ''No search providers configured'' None None \<and>
          tavily_tool deps = None \<and> serp_tool deps = None) \<or>
         (e = SearchError (''All configured providers failed: '' @
                join '', '' (available_providers deps)) None None \<and>
          available_providers deps \<noteq> [])"
  using assms
  by (auto simp: orchestrator_defs update_timing_def Let_def
           split: sum.splits option.splits if_splits)

section \<open>The model on the sample inputs\<close>

lemma both_keys_fields:
  "settings (both_keys nw strategy) =
     sample_settings (Some ''tvly-key'') (Some ''serp-key'') strategy"
  "tavily_tool (both_keys nw strategy) = Some (sample_tavily nw)"
  "serp_tool (both_keys nw strategy) = Some (sample_serp nw)"
  by (simp_all add: sample_defs)

lemma both_keys_strategy:
  "search_strategy (settings (both_keys nw strategy)) = strategy"
  by (simp add: both_keys_fields sample_settings_def)

lemma serp_key_only_fields:
  "settings (serp_key_only nw strategy) = sample_settings None (Some ''serp-key'') strategy"
  "tavily_tool (serp_key_only nw strategy) = None"
  "serp_tool (serp_key_only nw strategy) = Some (sample_serp nw)"
  by (simp_all add: sample_defs)

lemma sample_tavily_timeout:
  "sample_tavily net_timeout_then_one ''x'' 5 ''advanced'' True =
     Inl (TavilyAPIError ''Tavily search timeout after 30s'' None)"
  "sample_tavily net_down ''x'' 5 ''advanced'' True =
     Inl (TavilyAPIError ''Tavily search timeout after 30s'' None)"
  by (simp_all add: client_defs sample_defs)

lemma sample_tavily_empty:
  "sample_tavily net_empty_then_one ''x'' 5 ''advanced'' True = Inr empty_tavily_envelope"
  "sample_tavily net_empty ''x'' 5 ''advanced'' True = Inr empty_tavily_envelope"
  by (simp_all add: client_defs sample_defs)

lemma sample_tavily_two:
  "sample_tavily net_two_items ''x'' 5 ''advanced'' True = Inr tavily_envelope"
  by (simp add: client_defs sample_defs)

lemma sample_serp_one:
  "sample_serp net_timeout_then_one ''x'' 5 = Inr serp_envelope"
  "sample_serp net_empty_then_one ''x'' 5 = Inr serp_envelope"
  by (simp_all add: client_defs sample_defs)

lemma sample_serp_empty:
  "sample_serp net_empty ''x'' 5 = Inr empty_serp_envelope"
  by (simp add: client_defs sample_defs)

lemma sample_serp_down:
  "sample_serp net_down ''x'' 5 = Inl (SerpAPIError ''SerpAPI request failed: unreachable'' None)"
  by (simp add: client_defs sample_defs)

lemma sample_envelopes_timed:
  "serp_envelope\<lparr>search_time := end_time clk0 - start_time clk0\<rparr> = serp_envelope"
  "tavily_envelope\<lparr>search_time := end_time clk0 - start_time clk0\<rparr> = tavily_envelope"
  "empty_tavily_envelope\<lparr>search_time := end_time clk0 - start_time clk0\<rparr> =
     empty_tavily_envelope"
  by (simp_all add: sample_defs)

lemma sample_envelopes_results:
  "results serp_envelope \<noteq> []" "results tavily_envelope \<noteq> []"
  "results empty_tavily_envelope = []" "results empty_serp_envelope = []"
  by (simp_all add: sample_defs)

section \<open>The properties stated by the specification\<close>

text \<open>
  C1. Under the intelligent strategy (any strategy value other than the two
  single-provider ones), when the Tavily client is configured and its call raises or
  returns an empty result list, and the SerpAPI client is configured, the run calls
  Tavily and then SerpAPI, once each; an envelope the run returns is the one SerpAPI
  returned, with only the elapsed time stamped on it; and a non-empty SerpAPI envelope
  is returned.
\<close>

theorem intelligent_falls_back_to_serp:
  assumes "search_strategy (settings deps) \<noteq> ''tavily_only''"
    and "search_strategy (settings deps) \<noteq> ''serp_only''"
    and "tavily_tool deps = Some t"
    and "(\<exists>e. t q m ''advanced'' True = Inl e) \<or>
         (\<exists>ra. t q m ''advanced'' True = Inr ra \<and> results ra = [])"
    and "serp_tool deps = Some s"
  shows "fst (intelligent_search deps q m clk) = [TAVILY, SERP] \<and>
         (\<forall>env. snd (intelligent_search deps q m clk) = Inr env \<longrightarrow>
            (\<exists>rb. s q m = Inr rb \<and> results env = results rb \<and>
                  env = rb\<lparr>search_time := end_time clk - start_time clk\<rparr>)) \<and>
         (\<forall>rb. s q m = Inr rb \<and> results rb \<noteq> [] \<longrightarrow>
            snd (intelligent_search deps q m clk) =
              Inr (rb\<lparr>search_time := end_time clk - start_time clk\<rparr>))"
  using assms
  by (auto simp: orchestrator_defs update_timing_def Let_def split: sum.splits if_splits)

text \<open>
  The theorem on two runs with both keys set: Tavily times out, and Tavily answers with
  an empty list; SerpAPI answers with one item both times.
\<close>

theorem intelligent_falls_back_to_serp_witness:
  "intelligent_search (both_keys net_timeout_then_one ''intelligent'') ''x'' 5 clk0 =
     ([TAVILY, SERP], Inr serp_envelope) \<and>
   intelligent_search (both_keys net_empty_then_one ''intelligent'') ''x'' 5 clk0 =
     ([TAVILY, SERP], Inr serp_envelope)"
proof -
  have strat: "search_strategy (settings (both_keys nw ''intelligent'')) \<noteq> ''tavily_only''"
    "search_strategy (settings (both_keys nw ''intelligent'')) \<noteq> ''serp_only''" for nw
    by (simp_all add: both_keys_strategy)
  have raised:
    "(\<exists>e. sample_tavily net_timeout_then_one ''x'' 5 ''advanced'' True = Inl e) \<or>
     (\<exists>ra. sample_tavily net_timeout_then_one ''x'' 5 ''advanced'' True = Inr ra \<and>
           results ra = [])"
    by (simp add: sample_tavily_timeout)
  have empty:
    "(\<exists>e. sample_tavily net_empty_then_one ''x'' 5 ''advanced'' True = Inl e) \<or>
     (\<exists>ra. sample_tavily net_empty_then_one ''x'' 5 ''advanced'' True = Inr ra \<and>
           results ra = [])"
    by (simp add: sample_tavily_empty sample_envelopes_results)
  note a = intelligent_falls_back_to_serp
    [where deps = "both_keys net_timeout_then_one ''intelligent''"
       and t = "sample_tavily net_timeout_then_one" and s = "sample_serp net_timeout_then_one"
       and q = "''x''" and m = 5 and clk = clk0,
     OF strat both_keys_fields(2) raised both_keys_fields(3)]
  note b = intelligent_falls_back_to_serp
    [where deps = "both_keys net_empty_then_one ''intelligent''"
       and t = "sample_tavily net_empty_then_one" and s = "sample_serp net_empty_then_one"
       and q = "''x''" and m = 5 and clk = clk0,
     OF strat both_keys_fields(2) empty both_keys_fields(3)]
  from a [THEN conjunct2, THEN conjunct2, rule_format,
          OF conjI [OF sample_serp_one(1) sample_envelopes_results(1)]]
    a [THEN conjunct1]
  have one: "intelligent_search (both_keys net_timeout_then_one ''intelligent'') ''x'' 5 clk0 =
     ([TAVILY, SERP], Inr serp_envelope)"
    by (simp only: sample_envelopes_timed prod_eq_iff fst_conv snd_conv simp_thms)
  from b [THEN conjunct2, THEN conjunct2, rule_format,
          OF conjI [OF sample_serp_one(2) sample_envelopes_results(1)]]
    b [THEN conjunct1]
  have two: "intelligent_search (both_keys net_empty_then_one ''intelligent'') ''x'' 5 clk0 =
     ([TAVILY, SERP], Inr serp_envelope)"
    by (simp only: sample_envelopes_timed prod_eq_iff fst_conv snd_conv simp_thms)
  from one two show ?thesis by (rule conjI)
qed

text \<open>
  C9. Under the strategy \<^verbatim>\<open>tavily_only\<close> the SerpAPI client is never called. With no
  Tavily tool the run fails at once, before any call, with the error that names the
  missing key; when the Tavily call raises, the run ends after that one call with a
  \<^verbatim>\<open>SearchError\<close>: the raised exception itself when it is one (as every exception of
  the Tavily client is), a wrapping \<^verbatim>\<open>SearchError\<close> otherwise.
\<close>

theorem tavily_only_never_calls_serp:
  assumes "search_strategy (settings deps) = ''tavily_only''"
  shows "SERP \<notin> set (fst (intelligent_search deps q m clk)) \<and>
         (tavily_tool deps = None \<longrightarrow>
            intelligent_search deps q m clk =
              ([], Inl (SearchError ''Tavily API key not configured'' None None))) \<and>
         (\<forall>t e. tavily_tool deps = Some t \<and> t q m ''advanced'' True = Inl e \<longrightarrow>
            fst (intelligent_search deps q m clk) = [TAVILY] \<and>
            (\<exists>e'. snd (intelligent_search deps q m clk) = Inl e' \<and> is_SearchError e' \<and>
                  (is_SearchError e \<longrightarrow> e' = e)))"
  using assms
  by (auto simp: orchestrator_defs update_timing_def Let_def split: sum.splits option.splits)

text \<open>
  The theorem on two runs under \<^verbatim>\<open>tavily_only\<close>, SerpAPI being configured and able to
  answer in both: with the Tavily key missing, and with Tavily timing out.
\<close>

theorem tavily_only_never_calls_serp_witness:
  "intelligent_search (serp_key_only net_timeout_then_one ''tavily_only'') ''x'' 5 clk0 =
     ([], Inl (SearchError ''Tavily API key not configured'' None None)) \<and>
   fst (intelligent_search (both_keys net_timeout_then_one ''tavily_only'') ''x'' 5 clk0) =
     [TAVILY] \<and>
   snd (intelligent_search (both_keys net_timeout_then_one ''tavily_only'') ''x'' 5 clk0) =
     Inl (TavilyAPIError ''Tavily search timeout after 30s'' None) \<and>
   sample_serp net_timeout_then_one ''x'' 5 = Inr serp_envelope"
proof -
  have s1: "search_strategy (settings (serp_key_only net_timeout_then_one ''tavily_only'')) =
      ''tavily_only''"
    by (simp add: serp_key_only_fields sample_settings_def)
  have s2: "search_strategy (settings (both_keys net_timeout_then_one ''tavily_only'')) =
      ''tavily_only''"
    by (simp add: both_keys_strategy)
  note a = tavily_only_never_calls_serp
    [where deps = "serp_key_only net_timeout_then_one ''tavily_only''"
       and q = "''x''" and m = 5 and clk = clk0, OF s1]
  note b = tavily_only_never_calls_serp
    [where deps = "both_keys net_timeout_then_one ''tavily_only''"
       and q = "''x''" and m = 5 and clk = clk0, OF s2]
  from a [THEN conjunct2, THEN conjunct1, rule_format, OF serp_key_only_fields(2)]
  have one: "intelligent_search (serp_key_only net_timeout_then_one ''tavily_only'') ''x'' 5 clk0 =
     ([], Inl (SearchError ''Tavily API key not configured'' None None))" .
  from b [THEN conjunct2, THEN conjunct2, rule_format,
          OF conjI [OF both_keys_fields(2) sample_tavily_timeout(1)]]
  have two: "fst (intelligent_search (both_keys net_timeout_then_one ''tavily_only'') ''x'' 5 clk0) =
       [TAVILY] \<and>
     snd (intelligent_search (both_keys net_timeout_then_one ''tavily_only'') ''x'' 5 clk0) =
       Inl (TavilyAPIError ''Tavily search timeout after 30s'' None)"
    by auto
  from one two sample_serp_one(1) show ?thesis by simp
qed

text \<open>
  C10. A strategy value that is neither \<^verbatim>\<open>tavily_only\<close> nor \<^verbatim>\<open>serp_only\<close> makes
  \<^verbatim>\<open>intelligent_search\<close> behave exactly as the value \<^verbatim>\<open>intelligent\<close> does: the same
  calls and the same outcome. The same holds through \<^verbatim>\<open>n8n_intelligent_search\<close>, which
  assigns the caller's string to the settings unchecked.
\<close>

theorem unknown_strategy_is_intelligent:
  assumes "s \<noteq> ''tavily_only''" and "s \<noteq> ''serp_only''"
  shows "intelligent_search (deps\<lparr>settings := (settings deps)\<lparr>search_strategy := s\<rparr>\<rparr>) q m clk =
         intelligent_search
           (deps\<lparr>settings := (settings deps)\<lparr>search_strategy := ''intelligent''\<rparr>\<rparr>) q m clk \<and>
         n8n_intelligent_search L dd clk q m s =
         n8n_intelligent_search L dd clk q m ''intelligent''"
proof -
  have eq: "intelligent_search (x\<lparr>settings := (settings x)\<lparr>search_strategy := s\<rparr>\<rparr>) q m clk =
         intelligent_search
           (x\<lparr>settings := (settings x)\<lparr>search_strategy := ''intelligent''\<rparr>\<rparr>) q m clk" for x
    using assms search_body_default_strategy [of s "''intelligent''" x q m clk]
    by (simp add: intelligent_search_def)
  have "n8n_intelligent_search L dd clk q m s =
         n8n_intelligent_search L dd clk q m ''intelligent''"
    by (cases dd) (simp_all add: n8n_intelligent_search_def bindE_def eq)
  with eq show ?thesis by blast
qed

text \<open>
  The theorem at the unrecognised value \<^verbatim>\<open>fastest\<close>: with Tavily timing out the run
  falls back to SerpAPI, as under \<^verbatim>\<open>intelligent\<close>.
\<close>

theorem unknown_strategy_is_intelligent_witness:
  "''fastest'' \<noteq> ''tavily_only'' \<and> ''fastest'' \<noteq> ''serp_only'' \<and>
   intelligent_search
     ((both_keys net_timeout_then_one ''serp_only'')
        \<lparr>settings := (settings (both_keys net_timeout_then_one ''serp_only''))
           \<lparr>search_strategy := ''fastest''\<rparr>\<rparr>) ''x'' 5 clk0 =
     ([TAVILY, SERP], Inr serp_envelope) \<and>
   n8n_intelligent_search sample_libs (Inr (both_keys net_timeout_then_one ''serp_only''))
     clk0 ''x'' 5 ''fastest'' =
   n8n_intelligent_search sample_libs (Inr (both_keys net_timeout_then_one ''serp_only''))
     clk0 ''x'' 5 ''intelligent''"
proof -
  have h1: "''fastest'' \<noteq> ''tavily_only''" and h2: "''fastest'' \<noteq> ''serp_only''"
    by simp_all
  have run: "intelligent_search
     ((both_keys net_timeout_then_one ''serp_only'')
        \<lparr>settings := (settings (both_keys net_timeout_then_one ''serp_only''))
           \<lparr>search_strategy := ''intelligent''\<rparr>\<rparr>) ''x'' 5 clk0 =
     ([TAVILY, SERP], Inr serp_envelope)"
    by (simp add: client_defs sample_defs orchestrator_defs update_timing_def)
  note a = unknown_strategy_is_intelligent
    [where s = "''fastest''" and deps = "both_keys net_timeout_then_one ''serp_only''"
       and q = "''x''" and m = 5 and clk = clk0 and L = sample_libs
       and dd = "Inr (both_keys net_timeout_then_one ''serp_only'')", OF h1 h2]
  from a [THEN conjunct1] run a [THEN conjunct2] h1 h2 show ?thesis
    by (simp only: simp_thms)
qed

text \<open>
  C3, as the code has it. Under the intelligent strategy a run never returns an envelope
  with an empty result list: when no provider call yields a non-empty result set it
  raises a \<^verbatim>\<open>SearchError\<close>. Under \<^verbatim>\<open>tavily_only\<close> and \<^verbatim>\<open>serp_only\<close> the run raises
  a \<^verbatim>\<open>SearchError\<close> when the provider is not configured or its call raises, and
  returns the provider's envelope, only re-stamped with the elapsed time, otherwise: also
  when its result list is empty.
\<close>

theorem no_results_outcome_by_strategy:
  "(search_strategy (settings deps) \<noteq> ''tavily_only'' \<and>
    search_strategy (settings deps) \<noteq> ''serp_only'' \<longrightarrow>
      (\<forall>env. snd (intelligent_search deps q m clk) = Inr env \<longrightarrow> results env \<noteq> []) \<and>
      ((\<forall>t ra. tavily_tool deps = Some t \<and> t q m ''advanced'' True = Inr ra \<longrightarrow>
                results ra = []) \<and>
       (\<forall>s rb. serp_tool deps = Some s \<and> s q m = Inr rb \<longrightarrow> results rb = []) \<longrightarrow>
         (\<exists>e. snd (intelligent_search deps q m clk) = Inl e \<and> is_SearchError e))) \<and>
   (search_strategy (settings deps) = ''tavily_only'' \<longrightarrow>
      (case tavily_tool deps of
         None \<Rightarrow> \<exists>e. snd (intelligent_search deps q m clk) = Inl e \<and> is_SearchError e
       | Some t \<Rightarrow>
           (case t q m ''advanced'' True of
              Inl _ \<Rightarrow> \<exists>e. snd (intelligent_search deps q m clk) = Inl e \<and> is_SearchError e
            | Inr ra \<Rightarrow>
                snd (intelligent_search deps q m clk) =
                  Inr (ra\<lparr>search_time := end_time clk - start_time clk\<rparr>)))) \<and>
   (search_strategy (settings deps) = ''serp_only'' \<longrightarrow>
      (case serp_tool deps of
         None \<Rightarrow> \<exists>e. snd (intelligent_search deps q m clk) = Inl e \<and> is_SearchError e
       | Some s \<Rightarrow>
           (case s q m of
              Inl _ \<Rightarrow> \<exists>e. snd (intelligent_search deps q m clk) = Inl e \<and> is_SearchError e
            | Inr rb \<Rightarrow>
                snd (intelligent_search deps q m clk) =
                  Inr (rb\<lparr>search_time := end_time clk - start_time clk\<rparr>))))"
proof -
  have intelligent: "(\<forall>env. snd (intelligent_search deps q m clk) = Inr env \<longrightarrow> results env \<noteq> []) \<and>
      ((\<forall>t ra. tavily_tool deps = Some t \<and> t q m ''advanced'' True = Inr ra \<longrightarrow>
                results ra = []) \<and>
       (\<forall>s rb. serp_tool deps = Some s \<and> s q m = Inr rb \<longrightarrow> results rb = []) \<longrightarrow>
         (\<exists>e. snd (intelligent_search deps q m clk) = Inl e \<and> is_SearchError e))"
    if "search_strategy (settings deps) \<noteq> ''tavily_only''"
      "search_strategy (settings deps) \<noteq> ''serp_only''"
    using that
    by (auto simp: orchestrator_defs update_timing_def Let_def
             split: sum.splits option.splits if_splits)
  have tavily: "(case tavily_tool deps of
         None \<Rightarrow> \<exists>e. snd (intelligent_search deps q m clk) = Inl e \<and> is_SearchError e
       | Some t \<Rightarrow>
           (case t q m ''advanced'' True of
              Inl _ \<Rightarrow> \<exists>e. snd (intelligent_search deps q m clk) = Inl e \<and> is_SearchError e
            | Inr ra \<Rightarrow>
                snd (intelligent_search deps q m clk) =
                  Inr (ra\<lparr>search_time := end_time clk - start_time clk\<rparr>)))"
    if "search_strategy (settings deps) = ''tavily_only''"
    using that
    by (auto simp: orchestrator_defs update_timing_def Let_def split: sum.splits option.splits)
  have serp: "(case serp_tool deps of
         None \<Rightarrow> \<exists>e. snd (intelligent_search deps q m clk) = Inl e \<and> is_SearchError e
       | Some s \<Rightarrow>
           (case s q m of
              Inl _ \<Rightarrow> \<exists>e. snd (intelligent_search deps q m clk) = Inl e \<and> is_SearchError e
            | Inr rb \<Rightarrow>
                snd (intelligent_search deps q m clk) =
                  Inr (rb\<lparr>search_time := end_time clk - start_time clk\<rparr>)))"
    if "search_strategy (settings deps) = ''serp_only''"
    using that
    by (auto simp: orchestrator_defs update_timing_def Let_def split: sum.splits option.splits)
  from intelligent tavily serp show ?thesis by blast
qed

text \<open>
  The theorem on three runs with both keys set: both providers answer with empty lists
  under \<^verbatim>\<open>intelligent\<close> (the run raises) and under \<^verbatim>\<open>serp_only\<close> (the run returns the
  empty envelope), and both providers are unreachable under \<^verbatim>\<open>tavily_only\<close> (the run
  raises).
\<close>

theorem no_results_outcome_by_strategy_witness:
  "(\<exists>e. snd (intelligent_search (both_keys net_empty ''intelligent'') ''x'' 5 clk0) = Inl e \<and>
        is_SearchError e) \<and>
   snd (intelligent_search (both_keys net_empty ''serp_only'') ''x'' 5 clk0) =
     Inr empty_serp_envelope \<and>
   (\<exists>e. snd (intelligent_search (both_keys net_down ''tavily_only'') ''x'' 5 clk0) = Inl e \<and>
        is_SearchError e)"
proof -
  have i: "search_strategy (settings (both_keys net_empty ''intelligent'')) \<noteq> ''tavily_only'' \<and>
      search_strategy (settings (both_keys net_empty ''intelligent'')) \<noteq> ''serp_only''"
    by (simp add: both_keys_strategy)
  have none: "(\<forall>t ra. tavily_tool (both_keys net_empty ''intelligent'') = Some t \<and>
                 t ''x'' 5 ''advanced'' True = Inr ra \<longrightarrow> results ra = []) \<and>
       (\<forall>s rb. serp_tool (both_keys net_empty ''intelligent'') = Some s \<and> s ''x'' 5 = Inr rb \<longrightarrow>
                 results rb = [])"
    using sample_tavily_empty(2) sample_serp_empty sample_envelopes_results
    by (auto simp: both_keys_fields)
  note a = no_results_outcome_by_strategy
    [where deps = "both_keys net_empty ''intelligent''" and q = "''x''" and m = 5 and clk = clk0,
     THEN conjunct1, rule_format, OF i, THEN conjunct2, rule_format, OF none]
  have so: "search_strategy (settings (both_keys net_empty ''serp_only'')) = ''serp_only''"
    by (simp add: both_keys_strategy)
  note b = no_results_outcome_by_strategy
    [where deps = "both_keys net_empty ''serp_only''" and q = "''x''" and m = 5 and clk = clk0,
     THEN conjunct2, THEN conjunct2, rule_format, OF so]
  have two: "snd (intelligent_search (both_keys net_empty ''serp_only'') ''x'' 5 clk0) =
     Inr empty_serp_envelope"
    using b by (simp add: both_keys_fields sample_serp_empty empty_serp_envelope_def clk0_def)
  have t: "search_strategy (settings (both_keys net_down ''tavily_only'')) = ''tavily_only''"
    by (simp add: both_keys_strategy)
  note c = no_results_outcome_by_strategy
    [where deps = "both_keys net_down ''tavily_only''" and q = "''x''" and m = 5 and clk = clk0,
     THEN conjunct2, THEN conjunct1, rule_format, OF t]
  have three: "\<exists>e. snd (intelligent_search (both_keys net_down ''tavily_only'') ''x'' 5 clk0) = Inl e \<and>
        is_SearchError e"
    using c by (simp add: both_keys_fields sample_tavily_timeout)
  from a two three show ?thesis by blast
qed

text \<open>
  Where the sentence of the specification fails as it is stated: under
  \<^verbatim>\<open>tavily_only\<close>, with Tavily answering 200 and an empty result list, the run makes its one call and returns an envelope whose
  result list is empty.
\<close>

theorem tavily_only_returns_empty_envelope:
  "intelligent_search (both_keys net_empty ''tavily_only'') ''x'' 5 clk0 =
     ([TAVILY], Inr empty_tavily_envelope) \<and>
   results empty_tavily_envelope = []"
  by (simp add: client_defs sample_defs orchestrator_defs update_timing_def)

text \<open>
  C2 on a run the code can make: the Tavily key is not set, the SerpAPI key is, and
  SerpAPI is unreachable. The only configured provider is SerpAPI, yet the message of the
  raised \<^verbatim>\<open>SearchError\<close> names Tavily as well. With both keys set and both providers
  unreachable the message is the same one, not the \<^verbatim>\<open>All configured providers failed\<close>
  text that the other failure path builds from the configured tools.
\<close>

theorem serp_failure_message_names_tavily:
  "tavily_tool (serp_key_only net_down ''intelligent'') = None \<and>
   intelligent_search (serp_key_only net_down ''intelligent'') ''x'' 5 clk0 =
     ([SERP],
      Inl (SearchError ''All search providers failed: Tavily and SerpAPI errors'' None None)) \<and>
   contains ''Tavily'' ''All search providers failed: Tavily and SerpAPI errors'' \<and>
   intelligent_search (both_keys net_down ''intelligent'') ''x'' 5 clk0 =
     ([TAVILY, SERP],
      Inl (SearchError ''All search providers failed: Tavily and SerpAPI errors'' None None)) \<and>
   \<not> contains ''All configured providers failed''
        ''All search providers failed: Tavily and SerpAPI errors''"
  by (simp add: client_defs sample_defs orchestrator_defs update_timing_def)

text \<open>
  C4, as the code has it. For dependencies built by \<^verbatim>\<open>ResearchAgentDeps.__init__\<close>,
  so that the tools are the two clients of the repository: a run that returns an
  envelope has called at least one client and none twice; \<^verbatim>\<open>providers_used\<close> is the
  one provider called last, every item of the envelope carries that provider, and the
  results are the ones that client returned; a provider called earlier, whose outcome
  was discarded, is not in \<^verbatim>\<open>providers_used\<close>. Whenever the envelope has results,
  and under the intelligent strategy it always has, the providers in
  \<^verbatim>\<open>providers_used\<close> are exactly the providers of its results. In particular, under
  the intelligent strategy, when the Tavily call raises and the run still returns an
  envelope, the calls are Tavily then SerpAPI, once each, and \<^verbatim>\<open>providers_used\<close> is
  \<^verbatim>\<open>[SERP]\<close>. An envelope with no results, which only a single-provider strategy
  returns, still lists its provider.
\<close>

theorem providers_used_is_answering_provider:
  assumes run: "intelligent_search (ResearchAgentDeps_init w st) q m clk = (calls, Inr env)"
  shows "calls \<noteq> [] \<and> distinct calls \<and>
         providers_used env = [last calls] \<and>
         (\<forall>x \<in> set (results env). provider x = last calls) \<and>
         (\<forall>p \<in> set (butlast calls). p \<notin> set (providers_used env)) \<and>
         (results env \<noteq> [] \<longrightarrow> set (providers_used env) = provider ` set (results env)) \<and>
         (search_strategy st \<noteq> ''tavily_only'' \<and> search_strategy st \<noteq> ''serp_only'' \<longrightarrow>
            results env \<noteq> []) \<and>
         (last calls = TAVILY \<longrightarrow>
            (\<exists>t ra. tavily_tool (ResearchAgentDeps_init w st) = Some t \<and>
                    t q m ''advanced'' True = Inr ra \<and> results env = results ra)) \<and>
         (last calls = SERP \<longrightarrow>
            (\<exists>s rb. serp_tool (ResearchAgentDeps_init w st) = Some s \<and>
                    s q m = Inr rb \<and> results env = results rb)) \<and>
         (search_strategy st \<noteq> ''tavily_only'' \<and> search_strategy st \<noteq> ''serp_only'' \<and>
          (\<exists>t e. tavily_tool (ResearchAgentDeps_init w st) = Some t \<and>
                 t q m ''advanced'' True = Inl e) \<longrightarrow>
            calls = [TAVILY, SERP] \<and> providers_used env = [SERP])"
proof -
  let ?deps = "ResearchAgentDeps_init w st"
  note base = init_success_provider [OF run]
  have discarded: "\<forall>p \<in> set (butlast calls). p \<notin> set (providers_used env)"
    using base intelligent_search_success [OF run] by auto
  have fromA: "last calls = TAVILY \<longrightarrow>
      (\<exists>t ra. tavily_tool ?deps = Some t \<and> t q m ''advanced'' True = Inr ra \<and>
              results env = results ra)"
    using intelligent_search_success [OF run] by auto
  have fromB: "last calls = SERP \<longrightarrow>
      (\<exists>s rb. serp_tool ?deps = Some s \<and> s q m = Inr rb \<and> results env = results rb)"
    using intelligent_search_success [OF run] by auto
  have st: "settings ?deps = st" by (simp add: ResearchAgentDeps_init_def)
  have exact: "results env \<noteq> [] \<longrightarrow> set (providers_used env) = provider ` set (results env)"
  proof
    assume "results env \<noteq> []"
    then obtain x where "x \<in> set (results env)" by (cases "results env") auto
    with base show "set (providers_used env) = provider ` set (results env)" by auto
  qed
  have nonempty: "search_strategy st \<noteq> ''tavily_only'' \<and> search_strategy st \<noteq> ''serp_only'' \<longrightarrow>
      results env \<noteq> []"
    using intelligent_search_nonempty [OF run] st by simp
  have thrown: "search_strategy st \<noteq> ''tavily_only'' \<and> search_strategy st \<noteq> ''serp_only'' \<and>
      (\<exists>t e. tavily_tool ?deps = Some t \<and> t q m ''advanced'' True = Inl e) \<longrightarrow>
      calls = [TAVILY, SERP] \<and> providers_used env = [SERP]"
  proof
    assume h: "search_strategy st \<noteq> ''tavily_only'' \<and> search_strategy st \<noteq> ''serp_only'' \<and>
      (\<exists>t e. tavily_tool ?deps = Some t \<and> t q m ''advanced'' True = Inl e)"
    then obtain t e where "tavily_tool ?deps = Some t" "t q m ''advanced'' True = Inl e"
      by blast
    with h st have "calls = [TAVILY, SERP]"
      using tavily_raised_then_serp [OF run] by simp
    with base show "calls = [TAVILY, SERP] \<and> providers_used env = [SERP]" by simp
  qed
  from base discarded exact nonempty fromA fromB thrown show ?thesis by blast
qed

text \<open>
  The theorem on the run with both keys set where Tavily times out and SerpAPI answers
  with one item.
\<close>

theorem providers_used_is_answering_provider_witness:
  "intelligent_search
     (ResearchAgentDeps_init (sample_world net_timeout_then_one)
        (sample_settings (Some ''tvly-key'') (Some ''serp-key'') ''intelligent'')) ''x'' 5 clk0 =
     ([TAVILY, SERP], Inr serp_envelope) \<and>
   providers_used serp_envelope = [last [TAVILY, SERP]] \<and>
   map provider (results serp_envelope) = [SERP] \<and>
   set (providers_used serp_envelope) = provider ` set (results serp_envelope) \<and>
   TAVILY \<notin> set (providers_used serp_envelope)"
proof -
  have run: "intelligent_search
     (ResearchAgentDeps_init (sample_world net_timeout_then_one)
        (sample_settings (Some ''tvly-key'') (Some ''serp-key'') ''intelligent'')) ''x'' 5 clk0 =
     ([TAVILY, SERP], Inr serp_envelope)"
    by (simp add: client_defs sample_defs orchestrator_defs update_timing_def)
  note a = providers_used_is_answering_provider
    [where w = "sample_world net_timeout_then_one"
       and st = "sample_settings (Some ''tvly-key'') (Some ''serp-key'') ''intelligent''"
       and q = "''x''" and m = 5 and clk = clk0 and calls = "[TAVILY, SERP]"
       and env = serp_envelope, OF run]
  from a have "providers_used serp_envelope = [last [TAVILY, SERP]]"
    and "\<forall>x \<in> set (results serp_envelope). provider x = last [TAVILY, SERP]"
    and "\<forall>p \<in> set (butlast [TAVILY, SERP]). p \<notin> set (providers_used serp_envelope)"
    and "results serp_envelope \<noteq> [] \<longrightarrow>
         set (providers_used serp_envelope) = provider ` set (results serp_envelope)"
    by blast+
  with run sample_envelopes_results(1) show ?thesis by (simp add: serp_envelope_def)
qed

text \<open>
  Where the sentence of the specification fails as it is stated: under \<^verbatim>\<open>serp_only\<close>,
  with SerpAPI answering 200 and an empty list, the run succeeds with an envelope that
  holds no result of any provider and yet lists SerpAPI in \<^verbatim>\<open>providers_used\<close>.
\<close>

theorem empty_envelope_lists_its_provider:
  "intelligent_search (both_keys net_empty ''serp_only'') ''x'' 5 clk0 =
     ([SERP], Inr empty_serp_envelope) \<and>
   results empty_serp_envelope = [] \<and>
   providers_used empty_serp_envelope = [SERP] \<and>
   set (providers_used empty_serp_envelope) \<noteq> provider ` set (results empty_serp_envelope)"
  by (simp add: client_defs sample_defs orchestrator_defs update_timing_def)

text \<open>
  C5, as the code has it. When the search returns a non-empty envelope and the
  summarization call then raises an exception that is not a \<^verbatim>\<open>SearchError\<close>,
  \<^verbatim>\<open>run_research_agent\<close> returns one failed response, with no payload, whose message
  and error text are those of the summarization failure; a failed search gives a
  response with a different message and a different error prefix. The search results
  are not part of the response.
\<close>

theorem summarizer_failure_reported_distinctly:
  assumes "snd (intelligent_search deps q m sclk) = Inr env"
    and "results env \<noteq> []"
    and "run (research_prompt q (case ai_summary env of None \<Rightarrow> [] | Some a \<Rightarrow> a)
               (fst (format_results [] [] 1 (results env)))) deps = Inl e"
    and "\<not> is_SearchError e"
  shows "run_research_agent vd run dd sclk clk q m True (Some deps) =
           \<lparr>success = False, data = None,
            message = ''Research failed due to unexpected error'',
            error = Some (''Research agent failed: '' @ str_exn e),
            execution_time = end_time clk - start_time clk, tokens_used = None\<rparr> \<and>
         (\<forall>deps' e' cs. snd (intelligent_search deps' q m sclk) = Inl e' \<longrightarrow>
            run_research_agent vd run dd sclk clk q m cs (Some deps') =
              \<lparr>success = False, data = None,
               message = ''Research failed due to search error'',
               error = Some (''Search failed: '' @ str_exn e'),
               execution_time = end_time clk - start_time clk, tokens_used = None\<rparr>)"
proof -
  have one: "run_research_agent vd run dd sclk clk q m True (Some deps) =
           \<lparr>success = False, data = None,
            message = ''Research failed due to unexpected error'',
            error = Some (''Research agent failed: '' @ str_exn e),
            execution_time = end_time clk - start_time clk, tokens_used = None\<rparr>"
  proof -
    obtain rt srcs where fr: "format_results [] [] 1 (results env) = (rt, srcs)"
      by (cases "format_results [] [] 1 (results env)")
    with assms(3) have "run (research_prompt q
        (case ai_summary env of None \<Rightarrow> [] | Some a \<Rightarrow> a) rt) deps = Inl e"
      by simp
    with assms(1,2,4) fr show ?thesis
      by (simp add: run_research_agent_def research_body_def bindE_def)
  qed
  have two: "run_research_agent vd run dd sclk clk q m cs (Some deps') =
              \<lparr>success = False, data = None,
               message = ''Research failed due to search error'',
               error = Some (''Search failed: '' @ str_exn e'),
               execution_time = end_time clk - start_time clk, tokens_used = None\<rparr>"
    if "snd (intelligent_search deps' q m sclk) = Inl e'" for deps' e' cs
    using that intelligent_search_raises_SearchError [OF that]
    by (simp add: run_research_agent_def research_body_def bindE_def)
  from one two show ?thesis by blast
qed

text \<open>
  The theorem on two runs: Tavily answers with two items and the summarizer raises; both
  providers are unreachable.
\<close>

theorem summarizer_failure_reported_distinctly_witness:
  "message (run_research_agent sample_validate_data failing_summarizer (Inl (PyError ''unused'')) clk0 clk0
              ''x'' 5 True (Some (both_keys net_two_items ''intelligent''))) =
     ''Research failed due to unexpected error'' \<and>
   message (run_research_agent sample_validate_data failing_summarizer (Inl (PyError ''unused'')) clk0 clk0
              ''x'' 5 True (Some (both_keys net_down ''intelligent''))) =
     ''Research failed due to search error''"
proof -
  have search: "snd (intelligent_search (both_keys net_two_items ''intelligent'') ''x'' 5 clk0) =
      Inr tavily_envelope"
    by (simp add: client_defs sample_defs orchestrator_defs update_timing_def)
  have raised: "failing_summarizer
      (research_prompt ''x'' (case ai_summary tavily_envelope of None \<Rightarrow> [] | Some a \<Rightarrow> a)
         (fst (format_results [] [] 1 (results tavily_envelope))))
      (both_keys net_two_items ''intelligent'') = Inl (PyError ''model overloaded'')"
    by (simp add: failing_summarizer_def)
  have other: "\<not> is_SearchError (PyError ''model overloaded'')" by simp
  have down: "snd (intelligent_search (both_keys net_down ''intelligent'') ''x'' 5 clk0) =
      Inl (SearchError ''All search providers failed: Tavily and SerpAPI errors'' None None)"
    by (simp add: client_defs sample_defs orchestrator_defs update_timing_def)
  note a = summarizer_failure_reported_distinctly
    [where deps = "both_keys net_two_items ''intelligent''" and q = "''x''" and m = 5
       and sclk = clk0 and clk = clk0 and env = tavily_envelope and run = failing_summarizer
       and e = "PyError ''model overloaded''" and dd = "Inl (PyError ''unused'')"
       and vd = sample_validate_data,
     OF search sample_envelopes_results(2) raised other]
  from a [THEN conjunct1]
  have one: "message (run_research_agent sample_validate_data failing_summarizer (Inl (PyError ''unused'')) clk0 clk0
              ''x'' 5 True (Some (both_keys net_two_items ''intelligent''))) =
     ''Research failed due to unexpected error''"
    by simp
  from a [THEN conjunct2, rule_format, OF down]
  have two: "message (run_research_agent sample_validate_data failing_summarizer (Inl (PyError ''unused'')) clk0 clk0
              ''x'' 5 True (Some (both_keys net_down ''intelligent''))) =
     ''Research failed due to search error''"
    by simp
  from one two show ?thesis by (rule conjI)
qed

text \<open>
  Where the sentence of the specification fails as it is stated: the search succeeds
  with two items, the summarizer raises, and the caller gets a single response with \<^verbatim>\<open>success\<close> false and no payload.
\<close>

theorem summarizer_failure_drops_search_results:
  "snd (intelligent_search (both_keys net_two_items ''intelligent'') ''x'' 5 clk0) =
     Inr tavily_envelope \<and>
   run_research_agent sample_validate_data failing_summarizer (Inl (PyError ''unused'')) clk0 clk0 ''x'' 5 True
     (Some (both_keys net_two_items ''intelligent'')) =
     \<lparr>success = False, data = None,
      message = ''Research failed due to unexpected error'',
      error = Some ''Research agent failed: model overloaded'',
      execution_time = 2, tokens_used = None\<rparr>"
  by (simp add: client_defs sample_defs orchestrator_defs update_timing_def
        run_research_agent_def research_body_def)

text \<open>
  C6, as the code has it. When the email agent has generated a draft and the
  draft-creation step then raises (the context constructor raises, there is no mail tool
  to call, or the mail-service call raises), \<^verbatim>\<open>run_email_agent\<close> returns a response
  with \<^verbatim>\<open>success\<close> true and no error, whose payload is the generated draft, unchanged.
  Its \<^verbatim>\<open>draft_id\<close> is therefore what the agent generated: unset when the agent left it
  unset; the failure path neither assigns nor clears it.
\<close>

theorem draft_failure_keeps_success:
  assumes "run (agent_prompt request
                  (format_research_content research_content
                     (case sources of None \<Rightarrow> [] | Some ss \<Rightarrow> ss) (include_sources request)))
               deps = Inr result"
    and "run_data result = Some d"
    and "(\<exists>x. new_context deps (run_usage result) = Inl x) \<or>
         (\<exists>cd. new_context deps (run_usage result) = Inr cd \<and>
               (gmail_tool cd = None \<or>
                (\<exists>create_draft e. gmail_tool cd = Some create_draft \<and> create_draft d = Inl e)))"
  shows "success (run_email_agent L new_context run dd clk request research_content sources
                    (Some deps)) \<and>
         error (run_email_agent L new_context run dd clk request research_content sources
                  (Some deps)) = None \<and>
         data (run_email_agent L new_context run dd clk request research_content sources
                 (Some deps)) = Some (EmailDraftData d) \<and>
         (draft_id d = None \<longrightarrow>
            data (run_email_agent L new_context run dd clk request research_content sources
                    (Some deps)) = Some (EmailDraftData (d\<lparr>draft_id := None\<rparr>)))"
proof -
  from assms(3)
  have "\<exists>e. bindE (new_context deps (run_usage result))
               (\<lambda>ctx_deps. create_gmail_draft L ctx_deps d) = Inl e"
    by (auto simp: create_gmail_draft_def bindE_def split: sum.splits exn.splits)
  then obtain e where "bindE (new_context deps (run_usage result))
               (\<lambda>ctx_deps. create_gmail_draft L ctx_deps d) = Inl e" ..
  with assms(1,2)
  have "run_email_agent L new_context run dd clk request research_content sources (Some deps) =
          \<lparr>success = True, data = Some (EmailDraftData d),
           message = ''Email draft created successfully'', error = None,
           execution_time = end_time clk - start_time clk,
           tokens_used = (case run_usage result of None \<Rightarrow> None | Some u \<Rightarrow> total_tokens u)\<rparr>"
    by (simp add: run_email_agent_def email_body_def Let_def bindE_def [of "Inr deps"]
          bindE_def [of "Inr result"])
  then show ?thesis by simp
qed

text \<open>
  The theorem on two runs with a generated draft that has no id: the mail service
  refuses the call with status 403, and the context constructor raises.
\<close>

theorem draft_failure_keeps_success_witness:
  "run_email_agent sample_libs sample_context sample_email_run (Inl (PyError ''unused'')) clk0
     sample_request ''Findings so far'' (Some [''https://a.example/1''])
     (Some \<lparr>gmail_tool = Some refusing_gmail\<rparr>) =
     \<lparr>success = True, data = Some (EmailDraftData sample_draft),
      message = ''Email draft created successfully'', error = None,
      execution_time = 2, tokens_used = Some 321\<rparr> \<and>
   data (run_email_agent sample_libs failing_context sample_email_run (Inl (PyError ''unused''))
           clk0 sample_request ''Findings so far'' (Some [''https://a.example/1''])
           (Some \<lparr>gmail_tool = Some refusing_gmail\<rparr>)) =
     Some (EmailDraftData sample_draft) \<and>
   draft_id sample_draft = None"
proof -
  let ?deps = "\<lparr>gmail_tool = Some refusing_gmail\<rparr>"
  let ?result = "\<lparr>run_data = Some sample_draft, run_usage = Some \<lparr>total_tokens = Some 321\<rparr>\<rparr>"
  let ?r1 = "run_email_agent sample_libs sample_context sample_email_run
       (Inl (PyError ''unused'')) clk0 sample_request ''Findings so far''
       (Some [''https://a.example/1'']) (Some ?deps)"
  have gen: "sample_email_run
      (agent_prompt sample_request
         (format_research_content ''Findings so far''
            (case Some [''https://a.example/1''] of None \<Rightarrow> [] | Some ss \<Rightarrow> ss)
            (include_sources sample_request))) ?deps = Inr ?result"
    by (simp add: sample_email_run_def)
  have dat: "run_data ?result = Some sample_draft" by simp
  have unset: "draft_id sample_draft = None" by (simp add: sample_draft_def)
  have refused: "(\<exists>x. sample_context ?deps (run_usage ?result) = Inl x) \<or>
      (\<exists>cd. sample_context ?deps (run_usage ?result) = Inr cd \<and>
         (gmail_tool cd = None \<or>
          (\<exists>create_draft e. gmail_tool cd = Some create_draft \<and>
             create_draft sample_draft = Inl e)))"
    by (simp add: sample_context_def refusing_gmail_def)
  have noctx: "(\<exists>x. failing_context ?deps (run_usage ?result) = Inl x) \<or>
      (\<exists>cd. failing_context ?deps (run_usage ?result) = Inr cd \<and>
         (gmail_tool cd = None \<or>
          (\<exists>create_draft e. gmail_tool cd = Some create_draft \<and>
             create_draft sample_draft = Inl e)))"
    by (simp add: failing_context_def)
  note a = draft_failure_keeps_success
    [where run = sample_email_run and request = sample_request
       and research_content = "''Findings so far''" and sources = "Some [''https://a.example/1'']"
       and deps = ?deps and result = ?result and d = sample_draft and L = sample_libs
       and dd = "Inl (PyError ''unused'')" and clk = clk0 and new_context = sample_context,
     OF gen dat refused]
  note b = draft_failure_keeps_success
    [where run = sample_email_run and request = sample_request
       and research_content = "''Findings so far''" and sources = "Some [''https://a.example/1'']"
       and deps = ?deps and result = ?result and d = sample_draft and L = sample_libs
       and dd = "Inl (PyError ''unused'')" and clk = clk0 and new_context = failing_context,
     OF gen dat noctx]
  have rest: "message ?r1 = ''Email draft created successfully'' \<and>
     execution_time ?r1 = 2 \<and> tokens_used ?r1 = Some 321"
    by (simp add: run_email_agent_def email_body_def bindE_def sample_email_run_def
          sample_context_def create_gmail_draft_def refusing_gmail_def clk0_def)
  from a rest have one: "?r1 =
     \<lparr>success = True, data = Some (EmailDraftData sample_draft),
      message = ''Email draft created successfully'', error = None,
      execution_time = 2, tokens_used = Some 321\<rparr>"
    by (cases ?r1) simp
  from one b [THEN conjunct2, THEN conjunct2, THEN conjunct1] unset show ?thesis
    by (simp only: simp_thms)
qed

text \<open>
  Where the sentence of the specification fails as it is stated: the agent generates a
  draft that carries an id, the mail service refuses the call, and the response is a
  success whose draft still has that id set.
\<close>

theorem draft_failure_keeps_generated_id:
  "run_email_agent sample_libs sample_context email_run_with_id (Inl (PyError ''unused'')) clk0
     sample_request ''Findings so far'' (Some [''https://a.example/1''])
     (Some \<lparr>gmail_tool = Some refusing_gmail\<rparr>) =
     \<lparr>success = True, data = Some (EmailDraftData draft_with_id),
      message = ''Email draft created successfully'', error = None,
      execution_time = 2, tokens_used = Some 321\<rparr> \<and>
   draft_id draft_with_id = Some ''r-generated''"
  by (simp add: run_email_agent_def email_body_def bindE_def email_run_with_id_def
        sample_context_def create_gmail_draft_def refusing_gmail_def clk0_def
        draft_with_id_def sample_draft_def)

text \<open>
  C7, as the code has it. An envelope of the Tavily client has \<^verbatim>\<open>ai_summary\<close> unset
  when the caller did not ask for the answer, and otherwise the validated \<^verbatim>\<open>answer\<close>
  field of the backend's response (unset when the response has none). An envelope of
  the SerpAPI client takes nothing from an answer field of the backend, but it does carry
  an \<^verbatim>\<open>ai_summary\<close> whenever its result list is not empty: the text that
  \<^verbatim>\<open>_generate_summary\<close> builds from the results; it is unset only for an empty list.
\<close>

theorem ai_summary_by_client:
  "(TavilySearchTool_search L nw clk self q m d a idom edom = Inr env \<longrightarrow>
      (\<not> a \<longrightarrow> ai_summary env = None) \<and>
      (a \<longrightarrow> (\<exists>resp data answer.
                post nw (base_url self @ ''/search'') (tavily_payload self q m d a idom edom)
                  = Response resp \<and>
                json_body resp = Some data \<and>
                py_get L data ''answer'' JNull = Inr answer \<and>
                as_opt_str L answer = Some (ai_summary env)))) \<and>
   (SerpSearchTool_search L nw clk' self' q' m' c l ss tp = Inr env' \<longrightarrow>
      ai_summary env' =
        (if results env' = [] then None else Some (generate_summary (results env'))))"
proof -
  have tav: "(\<not> a \<longrightarrow> ai_summary env = None) \<and>
      (a \<longrightarrow> (\<exists>resp data answer.
                post nw (base_url self @ ''/search'') (tavily_payload self q m d a idom edom)
                  = Response resp \<and>
                json_body resp = Some data \<and>
                py_get L data ''answer'' JNull = Inr answer \<and>
                as_opt_str L answer = Some (ai_summary env)))"
    if "TavilySearchTool_search L nw clk self q m d a idom edom = Inr env"
  proof -
    from that have "tavily_request L nw clk self q m d a idom edom = Inr env"
      by (simp add: TavilySearchTool_search_Inr)
    from tavily_request_Inr [OF this] show ?thesis
      by (cases a) (auto simp: as_opt_str_def)
  qed
  have serp: "ai_summary env' =
        (if results env' = [] then None else Some (generate_summary (results env')))"
    if "SerpSearchTool_search L nw clk' self' q' m' c l ss tp = Inr env'"
  proof -
    from that have "serp_request L nw clk' self' q' m' c l ss tp = Inr env'"
      by (simp add: SerpSearchTool_search_Inr)
    from serp_request_Inr [OF this] show ?thesis by auto
  qed
  from tav serp show ?thesis by blast
qed

text \<open>
  The theorem on the two sample answers: Tavily's two items with an answer, asked for,
  and SerpAPI's one item.
\<close>

theorem ai_summary_by_client_witness:
  "sample_tavily net_two_items ''x'' 5 ''advanced'' True = Inr tavily_envelope \<and>
   ai_summary tavily_envelope = Some ''An answer'' \<and>
   map_of tavily_two_items ''answer'' = Some (JStr ''An answer'') \<and>
   sample_serp net_timeout_then_one ''x'' 5 = Inr serp_envelope \<and>
   ai_summary serp_envelope = Some (generate_summary (results serp_envelope))"
proof -
  note a = ai_summary_by_client
    [where L = sample_libs and nw = net_two_items and clk = clk0
       and self = "TavilySearchTool_init ''tvly-key'' 30" and q = "''x''" and m = 5
       and d = "''advanced''" and a = True and idom = None and edom = None
       and env = tavily_envelope
       and clk' = clk0 and self' = "SerpSearchTool_init ''serp-key'' 30" and q' = "''x''"
       and m' = 5 and c = "''us''" and l = "''en''" and ss = "''off''" and tp = None
       and env' = serp_envelope]
  have t: "TavilySearchTool_search sample_libs net_two_items clk0
      (TavilySearchTool_init ''tvly-key'' 30) ''x'' 5 ''advanced'' True None None =
      Inr tavily_envelope"
    using sample_tavily_two by (simp add: sample_tavily_def)
  note b = ai_summary_by_client
    [where L = sample_libs and nw = net_timeout_then_one and clk = clk0
       and self = "TavilySearchTool_init ''tvly-key'' 30" and q = "''x''" and m = 5
       and d = "''advanced''" and a = True and idom = None and edom = None
       and env = tavily_envelope
       and clk' = clk0 and self' = "SerpSearchTool_init ''serp-key'' 30" and q' = "''x''"
       and m' = 5 and c = "''us''" and l = "''en''" and ss = "''off''" and tp = None
       and env' = serp_envelope]
  have s': "SerpSearchTool_search sample_libs net_timeout_then_one clk0
      (SerpSearchTool_init ''serp-key'' 30) ''x'' 5 ''us'' ''en'' ''off'' None =
      Inr serp_envelope"
    using sample_serp_one(1) by (simp add: sample_serp_def)
  from a [THEN conjunct1, rule_format, OF t]
  have "\<exists>resp data answer.
      post net_two_items (base_url (TavilySearchTool_init ''tvly-key'' 30) @ ''/search'')
        (tavily_payload (TavilySearchTool_init ''tvly-key'' 30) ''x'' 5 ''advanced'' True None None)
        = Response resp \<and>
      json_body resp = Some data \<and> py_get sample_libs data ''answer'' JNull = Inr answer \<and>
      as_opt_str sample_libs answer = Some (ai_summary tavily_envelope)"
    by simp
  then have one: "ai_summary tavily_envelope = Some ''An answer''"
    by (auto simp: net_two_items_def ok_response_def tavily_two_items_def py_get_def
          as_opt_str_def sample_libs_def split: json.splits)
  from b [THEN conjunct2, rule_format, OF s']
  have two: "ai_summary serp_envelope = Some (generate_summary (results serp_envelope))"
    by (simp add: sample_envelopes_results)
  have three: "map_of tavily_two_items ''answer'' = Some (JStr ''An answer'')"
    by (simp add: tavily_two_items_def)
  from one two three sample_tavily_two sample_serp_one(1) show ?thesis by simp
qed

text \<open>
  Where the sentence of the specification fails as it is stated: the envelope the
  SerpAPI client builds from one organic result has an \<^verbatim>\<open>ai_summary\<close>.
\<close>

theorem serp_client_sets_ai_summary:
  "SerpSearchTool_search sample_libs net_timeout_then_one clk0
     (SerpSearchTool_init ''serp-key'' 30) ''x'' 5 ''us'' ''en'' ''off'' None =
     Inr \<lparr>query = ''x'',
          results = [SerpSearchResult ''B1'' ''https://b.example/1'' ''s1'' 1 None None SERP],
          total_results = 1, search_time = 2, providers_used = [SERP],
          ai_summary = Some ''Found 1 search results. Top sources: https://b.example/1'',
          timestamp = 1700000000\<rparr>"
  by (simp add: client_defs sample_defs)

text \<open>
  C8. When the backend answers 200 with an object whose item list (\<^verbatim>\<open>results\<close> for
  Tavily, \<^verbatim>\<open>organic_results\<close> for SerpAPI) has N raw items and the client returns an
  envelope, then \<^verbatim>\<open>total_results\<close> is N, the envelope has N results, and the result at
  each index is the conversion of the raw item at that index (for SerpAPI with that
  index as the default position minus one): the order of the items is kept.
\<close>

theorem envelope_counts_and_orders_items:
  "(post nw (base_url self @ ''/search'') (tavily_payload self q m d a idom edom) = Response resp \<and>
    json_body resp = Some (JObj kv) \<and> map_of kv ''results'' = Some (JArr items) \<and>
    TavilySearchTool_search L nw clk self q m d a idom edom = Inr env \<longrightarrow>
      total_results env = int (length items) \<and>
      length (results env) = length items \<and>
      (\<forall>k < length items. tavily_item L (items ! k) = Inr (results env ! k))) \<and>
   (get nw (base_url self') (serp_params self' q' m' c l ss tp) = Response resp' \<and>
    json_body resp' = Some (JObj kv') \<and> map_of kv' ''organic_results'' = Some (JArr items') \<and>
    SerpSearchTool_search L nw clk' self' q' m' c l ss tp = Inr env' \<longrightarrow>
      total_results env' = int (length items') \<and>
      length (results env') = length items' \<and>
      (\<forall>k < length items'. serp_item L (int k) (items' ! k) = Inr (results env' ! k)))"
proof -
  have tav: "total_results env = int (length items) \<and>
      length (results env) = length items \<and>
      (\<forall>k < length items. tavily_item L (items ! k) = Inr (results env ! k))"
    if h: "post nw (base_url self @ ''/search'') (tavily_payload self q m d a idom edom) = Response resp"
      "json_body resp = Some (JObj kv)" "map_of kv ''results'' = Some (JArr items)"
      "TavilySearchTool_search L nw clk self q m d a idom edom = Inr env"
  proof -
    from h(4) have "tavily_request L nw clk self q m d a idom edom = Inr env"
      by (simp add: TavilySearchTool_search_Inr)
    from tavily_request_Inr [OF this] h(1,2,3)
    have conv: "convert_tavily L [] items = Inr (results env)"
      and tot: "total_results env = int (length (results env))"
      by (auto simp: py_get_def py_iter_def)
    from convert_tavily_acc [OF conv] tot show ?thesis by auto
  qed
  have serp: "total_results env' = int (length items') \<and>
      length (results env') = length items' \<and>
      (\<forall>k < length items'. serp_item L (int k) (items' ! k) = Inr (results env' ! k))"
    if h: "get nw (base_url self') (serp_params self' q' m' c l ss tp) = Response resp'"
      "json_body resp' = Some (JObj kv')" "map_of kv' ''organic_results'' = Some (JArr items')"
      "SerpSearchTool_search L nw clk' self' q' m' c l ss tp = Inr env'"
  proof -
    from h(4) have "serp_request L nw clk' self' q' m' c l ss tp = Inr env'"
      by (simp add: SerpSearchTool_search_Inr)
    from serp_request_Inr [OF this] h(1,2,3)
    have conv: "convert_serp L [] 0 items' = Inr (results env')"
      and tot: "total_results env' = int (length (results env'))"
      by (auto simp: py_get_def py_iter_def)
    from convert_serp_acc [OF conv] tot show ?thesis by auto
  qed
  from tav serp show ?thesis by blast
qed

text \<open>The theorem on the two sample answers, of two items and of one item.\<close>

theorem envelope_counts_and_orders_items_witness:
  "total_results tavily_envelope = 2 \<and> length (results tavily_envelope) = 2 \<and>
   tavily_item sample_libs (tavily_two_raw ! 0) = Inr (results tavily_envelope ! 0) \<and>
   tavily_item sample_libs (tavily_two_raw ! 1) = Inr (results tavily_envelope ! 1) \<and>
   total_results serp_envelope = 1 \<and> length (results serp_envelope) = 1 \<and>
   serp_item sample_libs 0 (serp_one_raw ! 0) = Inr (results serp_envelope ! 0)"
proof -
  let ?tv = "TavilySearchTool_init ''tvly-key'' 30"
  let ?sp = "SerpSearchTool_init ''serp-key'' 30"
  let ?nw = "\<lparr>post = (\<lambda>u p. ok_response (JObj tavily_two_items)),
              get = (\<lambda>u p. ok_response (JObj serp_one_item))\<rparr>"
  let ?tresp = "\<lparr>status_code = 200, json_body = Some (JObj tavily_two_items), body_text = []\<rparr>"
  let ?sresp = "\<lparr>status_code = 200, json_body = Some (JObj serp_one_item), body_text = []\<rparr>"
  have t: "post ?nw (base_url ?tv @ ''/search'')
        (tavily_payload ?tv ''x'' 5 ''advanced'' True None None) = Response ?tresp \<and>
      json_body ?tresp = Some (JObj tavily_two_items) \<and>
      map_of tavily_two_items ''results'' = Some (JArr tavily_two_raw) \<and>
      TavilySearchTool_search sample_libs ?nw clk0 ?tv ''x'' 5 ''advanced'' True None None =
        Inr tavily_envelope"
    by (simp add: client_defs sample_defs)
  have s: "get ?nw (base_url ?sp) (serp_params ?sp ''x'' 5 ''us'' ''en'' ''off'' None) =
        Response ?sresp \<and>
      json_body ?sresp = Some (JObj serp_one_item) \<and>
      map_of serp_one_item ''organic_results'' = Some (JArr serp_one_raw) \<and>
      SerpSearchTool_search sample_libs ?nw clk0 ?sp ''x'' 5 ''us'' ''en'' ''off'' None =
        Inr serp_envelope"
    by (simp add: client_defs sample_defs)
  note a = envelope_counts_and_orders_items
    [where L = sample_libs and nw = ?nw and clk = clk0 and self = ?tv and q = "''x''" and m = 5
       and d = "''advanced''" and a = True and idom = None and edom = None
       and resp = ?tresp and kv = tavily_two_items and items = tavily_two_raw
       and env = tavily_envelope
       and clk' = clk0 and self' = ?sp and q' = "''x''" and m' = 5 and c = "''us''"
       and l = "''en''" and ss = "''off''" and tp = None
       and resp' = ?sresp and kv' = serp_one_item and items' = serp_one_raw
       and env' = serp_envelope]
  have lt: "length tavily_two_raw = 2" and ls: "length serp_one_raw = 1"
    by (simp_all add: tavily_two_raw_def serp_one_raw_def)
  from a [THEN conjunct1, rule_format, OF t] lt
  have one: "total_results tavily_envelope = 2 \<and> length (results tavily_envelope) = 2 \<and>
      tavily_item sample_libs (tavily_two_raw ! 0) = Inr (results tavily_envelope ! 0) \<and>
      tavily_item sample_libs (tavily_two_raw ! 1) = Inr (results tavily_envelope ! 1)"
    by simp
  from a [THEN conjunct2, rule_format, OF s] ls
  have two: "total_results serp_envelope = 1 \<and> length (results serp_envelope) = 1 \<and>
      serp_item sample_libs 0 (serp_one_raw ! 0) = Inr (results serp_envelope ! 0)"
    by simp
  from one two show ?thesis by simp
qed

end
